theory Spec2Isabelle
  imports Main "HOL-Library.Sublist"
begin

section \<open>JavaScript values used by the front-end\<close>

text \<open>
  Strings are lists of 8-bit characters, read as code units below 256.
  \<open>String.prototype.trim\<close> strips white space and line terminators from both ends;
  the code units below 256 that it strips are TAB, LF, VT, FF, CR, SPACE and NBSP.
\<close>

definition is_ws :: "char \<Rightarrow> bool" where
  "is_ws c = (c \<in> set [CHR 0x09, CHR 0x0A, CHR 0x0B, CHR 0x0C, CHR 0x0D, CHR 0x20, CHR 0xA0])"

definition trim :: "string \<Rightarrow> string" where
  "trim s = rev (dropWhile is_ws (rev (dropWhile is_ws s)))"

text \<open>A string is truthy exactly when it is not the empty string.\<close>

definition truthy :: "string \<Rightarrow> bool" where
  "truthy s = (s \<noteq> [])"

text \<open>\<open>Array.prototype.join\<close> on an array of strings.\<close>

fun join :: "string \<Rightarrow> string list \<Rightarrow> string" where
  "join sep [] = []"
| "join sep [x] = x"
| "join sep (x # y # ys) = x @ sep @ join sep (y # ys)"

text \<open>\<open>String.prototype.startsWith\<close>.\<close>

definition startsWith :: "string \<Rightarrow> string \<Rightarrow> bool" where
  "startsWith s p = prefix p s"

definition nl :: string where
  "nl = [CHR 0x0A]"

text \<open>
  A thrown value is either an instance of \<open>Error\<close> or any other value. What the handler
  needs of it is a text: of an \<open>Error\<close> its \<open>message\<close>, written into a template literal,
  of any other value its \<open>String(err)\<close> form. Taking that text can itself throw (a
  \<open>message\<close> that is a symbol or has a throwing \<open>toString\<close>, an object without
  prototype, a throwing getter), so each constructor carries the outcome: \<open>Inr\<close> the
  text, or \<open>Inl\<close> the value thrown while taking it.
\<close>

datatype js_exn = JsError "js_exn + string" | JsValue "js_exn + string"

text \<open>\<open>`${err instanceof Error ? err.message : String(err)}`\<close>\<close>

fun err_text :: "js_exn \<Rightarrow> js_exn + string" where
  "err_text (JsError message_text) = message_text"
| "err_text (JsValue string_form) = string_form"

section \<open>The document-modelling library (amf-client-js)\<close>

text \<open>
  The library is an external dependency; the front-end only calls it. It is a parameter of
  the model: a record of the operations the front-end uses, each of which either throws
  (for the asynchronous ones: rejects) or returns. \<open>'c\<close> is the type of client objects and
  \<open>'u\<close> the type of base units (parsed documents).

  \<open>baseUnitClient cfg\<close> stands for \<open>RAMLConfiguration.RAML10().baseUnitClient()\<close> and its
  siblings. The \<open>results\<close> of a result bundle is an array, so the test
  \<open>results && results.length > 0\<close> of the front-end is \<open>results \<noteq> []\<close>.
\<close>

datatype Configuration = RAML08 | RAML10 | OAS20 | OAS30

datatype PipelineId = Default | Editing | Compatibility | Cache

record AMFValidationResult =
  message :: string

record 'u AMFResult =
  baseUnit :: 'u
  results :: "AMFValidationResult list"

record ('c, 'u) AMF =
  baseUnitClient :: "Configuration \<Rightarrow> js_exn + 'c"
  parseDocument :: "'c \<Rightarrow> string \<Rightarrow> js_exn + 'u AMFResult"
  parseContent :: "'c \<Rightarrow> string \<Rightarrow> string \<Rightarrow> js_exn + 'u AMFResult"
  transform :: "'c \<Rightarrow> 'u \<Rightarrow> PipelineId \<Rightarrow> js_exn + 'u AMFResult"
  render :: "'c \<Rightarrow> 'u \<Rightarrow> string \<Rightarrow> js_exn + string"

section \<open>Component state and effects\<close>

datatype InputMode = Url | Content

text \<open>
  The seven \<open>useState\<close> cells of \<open>App\<close>; \<open>'f\<close> is the variant's \<open>Format\<close> type.
  The cell \<open>output\<close> is the field \<open>output'\<close> (\<open>output\<close> is a keyword).
\<close>

record 'f AppState =
  inputFormat :: 'f
  outputFormat :: 'f
  inputMode :: InputMode
  input :: string
  output' :: string
  loading :: bool
  error :: string

text \<open>
  What one run of \<open>handleConvert\<close> does, in order: calls of the state setters, calls of
  the library's parse, transform and render operations, and console output.
\<close>

datatype ('c, 'u) effect =
    SetError string
  | SetLoading bool
  | SetOutput string
  | ParseDocument 'c string
  | ParseContent 'c string string
  | Transform 'c 'u PipelineId
  | Render 'c 'u string
  | ConsoleWarn string string
  | ConsoleError string js_exn

text \<open>
  The handler reads the state cells from the closure of the render that created it, so the
  setters it calls do not change what it reads. The state after the run is the state before
  it with the setter calls applied in order.
\<close>

fun apply_effect :: "'f AppState \<Rightarrow> ('c, 'u) effect \<Rightarrow> 'f AppState" where
  "apply_effect s (SetError e) = s\<lparr>error := e\<rparr>"
| "apply_effect s (SetLoading b) = s\<lparr>loading := b\<rparr>"
| "apply_effect s (SetOutput out) = s\<lparr>output' := out\<rparr>"
| "apply_effect s _ = s"

definition run_effects :: "'f AppState \<Rightarrow> ('c, 'u) effect list \<Rightarrow> 'f AppState" where
  "run_effects s effs = foldl apply_effect s effs"

text \<open>
  A block of statements yields its effects and how it ended: \<open>Inl err\<close> when it threw
  \<open>err\<close> (an \<open>async\<close> function: when its promise is rejected with \<open>err\<close>),
  \<open>Inr ()\<close> when it ran to its end or returned. \<open>emit\<close> puts effects in front
  of the rest of a block.
\<close>

type_synonym ('c, 'u) block = "('c, 'u) effect list \<times> (js_exn + unit)"

fun emit :: "('c, 'u) effect list \<Rightarrow> ('c, 'u) block \<Rightarrow> ('c, 'u) block" where
  "emit es (fs, r) = (es @ fs, r)"

text \<open>
  \<open>try { body } catch (err) { handler } finally { fin }\<close>: the handler runs when the body
  threw, the \<open>finally\<close> block runs in every case, and the statement throws when the
  \<open>finally\<close> block throws or, failing that, when the handler (or the body, with no handler
  run) ended by throwing.
\<close>

definition try_catch_finally ::
  "('c, 'u) block \<Rightarrow> (js_exn \<Rightarrow> ('c, 'u) block) \<Rightarrow> ('c, 'u) block \<Rightarrow> ('c, 'u) block" where
  "try_catch_finally body handler fin =
    (let caught = (case body of
                     (es, Inl err) \<Rightarrow> emit es (handler err)
                   | (es, Inr u) \<Rightarrow> (es, Inr u))
     in case fin of
          (fs, Inl err) \<Rightarrow> (fst caught @ fs, Inl err)
        | (fs, Inr _) \<Rightarrow> (fst caught @ fs, snd caught))"

section \<open>The plain-CSS variant\<close>

datatype Format_plain = P_RAML_1_0 | P_OAS_2_0 | P_OAS_3_0

text \<open>The string each member of the \<open>Format\<close> union is at run time.\<close>

fun format_plain_value :: "Format_plain \<Rightarrow> string" where
  "format_plain_value P_RAML_1_0 = ''RAML 1.0''"
| "format_plain_value P_OAS_2_0 = ''OAS 2.0''"
| "format_plain_value P_OAS_3_0 = ''OAS 3.0''"

text \<open>The \<open>option\<close> elements of the two \<open>select\<close> controls: value and label.\<close>

definition inputFormat_options_plain :: "(string \<times> string) list" where
  "inputFormat_options_plain =
     [(''RAML 1.0'', ''RAML 1.0''),
      (''OAS 2.0'', ''OAS 2.0 (Swagger)''),
      (''OAS 3.0'', ''OAS 3.0 (OpenAPI)'')]"

definition outputFormat_options_plain :: "(string \<times> string) list" where
  "outputFormat_options_plain =
     [(''RAML 1.0'', ''RAML 1.0''),
      (''OAS 2.0'', ''OAS 2.0 (Swagger)''),
      (''OAS 3.0'', ''OAS 3.0 (OpenAPI)'')]"

fun getClient_plain :: "('c, 'u) AMF \<Rightarrow> Format_plain \<Rightarrow> js_exn + 'c" where
  "getClient_plain lib P_RAML_1_0 = baseUnitClient lib RAML10"
| "getClient_plain lib P_OAS_2_0 = baseUnitClient lib OAS20"
| "getClient_plain lib P_OAS_3_0 = baseUnitClient lib OAS30"

text \<open>The media type handed to \<open>render\<close> (the constant \<open>mimeType\<close>).\<close>

definition mimeType_plain :: "Format_plain \<Rightarrow> string" where
  "mimeType_plain fmt =
     (if startsWith (format_plain_value fmt) ''RAML''
      then ''application/yaml'' else ''application/json'')"

text \<open>The body of the \<open>try\<close> block of \<open>handleConvert\<close>.\<close>

definition try_block_plain :: "('c, 'u) AMF \<Rightarrow> Format_plain AppState \<Rightarrow> ('c, 'u) block" where
  "try_block_plain lib s =
    (case getClient_plain lib (inputFormat s) of Inl err \<Rightarrow> ([], Inl err) | Inr inputClient \<Rightarrow>
     case getClient_plain lib (outputFormat s) of Inl err \<Rightarrow> ([], Inl err) | Inr outputClient \<Rightarrow>
     emit [if inputMode s = Url then ParseDocument inputClient (input s)
           else ParseContent inputClient (input s) ''application/yaml'']
     (case (if inputMode s = Url then parseDocument lib inputClient (input s)
            else parseContent lib inputClient (input s) ''application/yaml'') of
        Inl err \<Rightarrow> ([], Inl err)
      | Inr parseResult \<Rightarrow>
        let parseErrors = results parseResult in
        if parseErrors \<noteq> [] then
          ([SetError (''Parsing errors:'' @ nl @ join nl (map message parseErrors)),
            SetLoading False], Inr ())
        else
          emit [Transform outputClient (baseUnit parseResult) Compatibility]
          (case transform lib outputClient (baseUnit parseResult) Compatibility of
             Inl err \<Rightarrow> ([], Inl err)
           | Inr transformResult \<Rightarrow>
             emit (if results transformResult \<noteq> [] then
                     [ConsoleWarn ''Transform warnings:''
                        (join nl (map message (results transformResult)))]
                   else [])
             (let mimeType = mimeType_plain (outputFormat s) in
              emit [Render outputClient (baseUnit transformResult) mimeType]
              (case render lib outputClient (baseUnit transformResult) mimeType of
                 Inl err \<Rightarrow> ([], Inl err)
               | Inr rendered \<Rightarrow> ([SetOutput rendered], Inr ()))))))"

text \<open>
  The \<open>catch\<close> block. The argument of \<open>setError\<close> is evaluated first: when taking the
  text of the caught value throws, \<open>setError\<close> is not called and the block throws.
\<close>

definition catch_block_plain :: "js_exn \<Rightarrow> ('c, 'u) block" where
  "catch_block_plain err =
    (case err_text err of
       Inl thrown \<Rightarrow> ([], Inl thrown)
     | Inr text \<Rightarrow> ([SetError (''Conversion error: '' @ text)], Inr ()))"

definition handleConvert_plain ::
  "('c, 'u) AMF \<Rightarrow> Format_plain AppState \<Rightarrow> ('c, 'u) block" where
  "handleConvert_plain lib s =
    (if \<not> truthy (trim (input s)) then ([SetError ''Please provide input''], Inr ())
     else
       emit [SetLoading True, SetError [], SetOutput []]
       (try_catch_finally
          (try_block_plain lib s)
          catch_block_plain
          ([SetLoading False], Inr ())))"

text \<open>The state once an invocation started in state \<open>s\<close> has finished.\<close>

definition after_plain :: "('c, 'u) AMF \<Rightarrow> Format_plain AppState \<Rightarrow> Format_plain AppState" where
  "after_plain lib s = run_effects s (fst (handleConvert_plain lib s))"

text \<open>The \<open>disabled\<close> attribute of the convert button.\<close>

definition convert_disabled_plain :: "Format_plain AppState \<Rightarrow> bool" where
  "convert_disabled_plain s = (loading s \<or> \<not> truthy (trim (input s)))"

section \<open>The styled variant\<close>

text \<open>
  The styled variant differs from the plain-CSS one in three places: its \<open>Format\<close> type
  and \<open>getClient\<close> have RAML 0.8, it does not \<open>await\<close> the result of \<open>transform\<close> (which
  is not a promise), and its \<open>catch\<close> block writes the caught value with
  \<open>console.error\<close> before it sets the error.
\<close>

datatype Format_styled = RAML_0_8 | RAML_1_0 | OAS_2_0 | OAS_3_0

fun format_styled_value :: "Format_styled \<Rightarrow> string" where
  "format_styled_value RAML_0_8 = ''RAML 0.8''"
| "format_styled_value RAML_1_0 = ''RAML 1.0''"
| "format_styled_value OAS_2_0 = ''OAS 2.0''"
| "format_styled_value OAS_3_0 = ''OAS 3.0''"

definition inputFormat_options_styled :: "(string \<times> string) list" where
  "inputFormat_options_styled =
     [(''RAML 0.8'', ''RAML 0.8''),
      (''RAML 1.0'', ''RAML 1.0''),
      (''OAS 2.0'', ''OAS 2.0 (Swagger)''),
      (''OAS 3.0'', ''OAS 3.0 (OpenAPI)'')]"

definition outputFormat_options_styled :: "(string \<times> string) list" where
  "outputFormat_options_styled =
     [(''RAML 0.8'', ''RAML 0.8''),
      (''RAML 1.0'', ''RAML 1.0''),
      (''OAS 2.0'', ''OAS 2.0 (Swagger)''),
      (''OAS 3.0'', ''OAS 3.0 (OpenAPI)'')]"

fun getClient_styled :: "('c, 'u) AMF \<Rightarrow> Format_styled \<Rightarrow> js_exn + 'c" where
  "getClient_styled lib RAML_0_8 = baseUnitClient lib RAML08"
| "getClient_styled lib RAML_1_0 = baseUnitClient lib RAML10"
| "getClient_styled lib OAS_2_0 = baseUnitClient lib OAS20"
| "getClient_styled lib OAS_3_0 = baseUnitClient lib OAS30"

definition mimeType_styled :: "Format_styled \<Rightarrow> string" where
  "mimeType_styled fmt =
     (if startsWith (format_styled_value fmt) ''RAML''
      then ''application/yaml'' else ''application/json'')"

definition try_block_styled :: "('c, 'u) AMF \<Rightarrow> Format_styled AppState \<Rightarrow> ('c, 'u) block" where
  "try_block_styled lib s =
    (case getClient_styled lib (inputFormat s) of Inl err \<Rightarrow> ([], Inl err) | Inr inputClient \<Rightarrow>
     case getClient_styled lib (outputFormat s) of Inl err \<Rightarrow> ([], Inl err) | Inr outputClient \<Rightarrow>
     emit [if inputMode s = Url then ParseDocument inputClient (input s)
           else ParseContent inputClient (input s) ''application/yaml'']
     (case (if inputMode s = Url then parseDocument lib inputClient (input s)
            else parseContent lib inputClient (input s) ''application/yaml'') of
        Inl err \<Rightarrow> ([], Inl err)
      | Inr parseResult \<Rightarrow>
        let parseErrors = results parseResult in
        if parseErrors \<noteq> [] then
          ([SetError (''Parsing errors:'' @ nl @ join nl (map message parseErrors)),
            SetLoading False], Inr ())
        else
          emit [Transform outputClient (baseUnit parseResult) Compatibility]
          (case transform lib outputClient (baseUnit parseResult) Compatibility of
             Inl err \<Rightarrow> ([], Inl err)
           | Inr transformResult \<Rightarrow>
             emit (if results transformResult \<noteq> [] then
                     [ConsoleWarn ''Transform warnings:''
                        (join nl (map message (results transformResult)))]
                   else [])
             (let mimeType = mimeType_styled (outputFormat s) in
              emit [Render outputClient (baseUnit transformResult) mimeType]
              (case render lib outputClient (baseUnit transformResult) mimeType of
                 Inl err \<Rightarrow> ([], Inl err)
               | Inr rendered \<Rightarrow> ([SetOutput rendered], Inr ()))))))"

definition catch_block_styled :: "js_exn \<Rightarrow> ('c, 'u) block" where
  "catch_block_styled err =
    emit [ConsoleError ''Conversion error:'' err]
    (case err_text err of
       Inl thrown \<Rightarrow> ([], Inl thrown)
     | Inr text \<Rightarrow> ([SetError (''Conversion error: '' @ text)], Inr ()))"

definition handleConvert_styled ::
  "('c, 'u) AMF \<Rightarrow> Format_styled AppState \<Rightarrow> ('c, 'u) block" where
  "handleConvert_styled lib s =
    (if \<not> truthy (trim (input s)) then ([SetError ''Please provide input''], Inr ())
     else
       emit [SetLoading True, SetError [], SetOutput []]
       (try_catch_finally
          (try_block_styled lib s)
          catch_block_styled
          ([SetLoading False], Inr ())))"

definition after_styled :: "('c, 'u) AMF \<Rightarrow> Format_styled AppState \<Rightarrow> Format_styled AppState" where
  "after_styled lib s = run_effects s (fst (handleConvert_styled lib s))"

definition convert_disabled_styled :: "Format_styled AppState \<Rightarrow> bool" where
  "convert_disabled_styled s = (loading s \<or> \<not> truthy (trim (input s)))"

section \<open>Notions used in the statements\<close>

text \<open>The parse step of an attempt: the call it makes and what that call yields.\<close>

definition parse_call :: "'c \<Rightarrow> 'f AppState \<Rightarrow> ('c, 'u) effect" where
  "parse_call client s =
     (case inputMode s of
        Url \<Rightarrow> ParseDocument client (input s)
      | Content \<Rightarrow> ParseContent client (input s) ''application/yaml'')"

definition parse_step :: "('c, 'u) AMF \<Rightarrow> 'c \<Rightarrow> 'f AppState \<Rightarrow> js_exn + 'u AMFResult" where
  "parse_step lib client s =
     (case inputMode s of
        Url \<Rightarrow> parseDocument lib client (input s)
      | Content \<Rightarrow> parseContent lib client (input s) ''application/yaml'')"

text \<open>How the \<open>catch\<close> block of either variant ends on the caught value \<open>err\<close>.\<close>

definition catch_outcome :: "js_exn \<Rightarrow> js_exn + unit" where
  "catch_outcome err = (case err_text err of Inl thrown \<Rightarrow> Inl thrown | Inr text \<Rightarrow> Inr ())"

fun is_library_call :: "('c, 'u) effect \<Rightarrow> bool" where
  "is_library_call (ParseDocument _ _) = True"
| "is_library_call (ParseContent _ _ _) = True"
| "is_library_call (Transform _ _ _) = True"
| "is_library_call (Render _ _ _) = True"
| "is_library_call _ = False"

text \<open>
  A library to run the model on: clients are their configurations, base units are the
  source text. Fetching fails: an \<open>http\<close> URL with an \<open>Error\<close>, a \<open>file\<close> URL with a
  thrown string, any other URL with a thrown object that has no string form (converting it
  raises a \<open>TypeError\<close>). Pasted content that starts with a \<open>#\<close> parses cleanly and any
  other content parses with three diagnostics; every transformation warns.
\<close>

definition sample_amf :: "(Configuration, string) AMF" where
  "sample_amf =
     \<lparr>baseUnitClient = (\<lambda>cfg. Inr cfg),
      parseDocument = (\<lambda>client url.
         if startsWith url ''http'' then Inl (JsError (Inr ''Failed to fetch''))
         else if startsWith url ''file'' then Inl (JsValue (Inr ''file access denied''))
         else Inl (JsValue (Inl (JsError (Inr ''Cannot convert object to primitive value''))))),
      parseContent = (\<lambda>client content mediaType.
         if startsWith content ''#'' then Inr \<lparr>baseUnit = content, results = []\<rparr>
         else Inr \<lparr>baseUnit = content,
                   results = [\<lparr>message = ''Syntax error''\<rparr>, \<lparr>message = ''Unexpected key''\<rparr>,
                              \<lparr>message = ''Missing title''\<rparr>]\<rparr>),
      transform = (\<lambda>client unit pipeline.
         Inr \<lparr>baseUnit = unit, results = [\<lparr>message = ''Lossy conversion''\<rparr>]\<rparr>),
      render = (\<lambda>client unit mediaType. Inr (mediaType @ '' '' @ unit))\<rparr>"

definition sample_plain :: "InputMode \<Rightarrow> string \<Rightarrow> string \<Rightarrow> string \<Rightarrow> Format_plain AppState" where
  "sample_plain mode inp out err =
     \<lparr>inputFormat = P_OAS_2_0, outputFormat = P_RAML_1_0, inputMode = mode,
      input = inp, output' = out, loading = False, error = err\<rparr>"

definition sample_styled :: "InputMode \<Rightarrow> string \<Rightarrow> string \<Rightarrow> string \<Rightarrow> Format_styled AppState" where
  "sample_styled mode inp out err =
     \<lparr>inputFormat = RAML_0_8, outputFormat = OAS_3_0, inputMode = mode,
      input = inp, output' = out, loading = False, error = err\<rparr>"

section \<open>Auxiliary facts\<close>

lemmas sample_defs =
  sample_amf_def sample_plain_def sample_styled_def trim_def is_ws_def startsWith_def nl_def
  mimeType_plain_def mimeType_styled_def parse_step_def parse_call_def

lemma trim_empty_iff: "trim s = [] \<longleftrightarrow> (\<forall>c \<in> set s. is_ws c)"
proof
  assume "trim s = []"
  then have rest: "\<forall>x \<in> set (dropWhile is_ws s). is_ws x"
    by (simp add: trim_def dropWhile_eq_Nil_conv)
  have "dropWhile is_ws s = []"
  proof (rule ccontr)
    assume ne: "dropWhile is_ws s \<noteq> []"
    then have "\<not> is_ws (hd (dropWhile is_ws s))"
      by (rule hd_dropWhile)
    moreover have "hd (dropWhile is_ws s) \<in> set (dropWhile is_ws s)"
      using ne by simp
    ultimately show False
      using rest by blast
  qed
  then show "\<forall>c \<in> set s. is_ws c"
    by (simp add: dropWhile_eq_Nil_conv)
next
  assume "\<forall>c \<in> set s. is_ws c"
  then show "trim s = []"
    by (auto simp add: trim_def dest: set_dropWhileD)
qed

subsection \<open>The \<open>try\<close> block, stage by stage\<close>

lemma try_plain_input_client_throws:
  "getClient_plain lib (inputFormat s) = Inl err \<Longrightarrow> try_block_plain lib s = ([], Inl err)"
  by (simp add: try_block_plain_def)

lemma try_plain_output_client_throws:
  "getClient_plain lib (inputFormat s) = Inr ic \<Longrightarrow>
   getClient_plain lib (outputFormat s) = Inl err \<Longrightarrow>
   try_block_plain lib s = ([], Inl err)"
  by (simp add: try_block_plain_def)

lemma try_plain_parse_throws:
  "getClient_plain lib (inputFormat s) = Inr ic \<Longrightarrow>
   getClient_plain lib (outputFormat s) = Inr oc \<Longrightarrow>
   parse_step lib ic s = Inl err \<Longrightarrow>
   try_block_plain lib s = ([parse_call ic s], Inl err)"
  by (cases "inputMode s") (simp_all add: try_block_plain_def parse_step_def parse_call_def)

lemma try_plain_parse_diagnostics:
  "getClient_plain lib (inputFormat s) = Inr ic \<Longrightarrow>
   getClient_plain lib (outputFormat s) = Inr oc \<Longrightarrow>
   parse_step lib ic s = Inr pr \<Longrightarrow> results pr \<noteq> [] \<Longrightarrow>
   try_block_plain lib s =
     ([parse_call ic s,
       SetError (''Parsing errors:'' @ nl @ join nl (map message (results pr))),
       SetLoading False], Inr ())"
  by (cases "inputMode s") (simp_all add: try_block_plain_def parse_step_def parse_call_def)

lemma try_plain_transform_throws:
  "getClient_plain lib (inputFormat s) = Inr ic \<Longrightarrow>
   getClient_plain lib (outputFormat s) = Inr oc \<Longrightarrow>
   parse_step lib ic s = Inr pr \<Longrightarrow> results pr = [] \<Longrightarrow>
   transform lib oc (baseUnit pr) Compatibility = Inl err \<Longrightarrow>
   try_block_plain lib s =
     ([parse_call ic s, Transform oc (baseUnit pr) Compatibility], Inl err)"
  by (cases "inputMode s") (simp_all add: try_block_plain_def parse_step_def parse_call_def)

lemma try_plain_render_throws:
  "getClient_plain lib (inputFormat s) = Inr ic \<Longrightarrow>
   getClient_plain lib (outputFormat s) = Inr oc \<Longrightarrow>
   parse_step lib ic s = Inr pr \<Longrightarrow> results pr = [] \<Longrightarrow>
   transform lib oc (baseUnit pr) Compatibility = Inr tr \<Longrightarrow>
   render lib oc (baseUnit tr) (mimeType_plain (outputFormat s)) = Inl err \<Longrightarrow>
   try_block_plain lib s =
     ([parse_call ic s, Transform oc (baseUnit pr) Compatibility] @
      (if results tr \<noteq> [] then
         [ConsoleWarn ''Transform warnings:'' (join nl (map message (results tr)))]
       else []) @
      [Render oc (baseUnit tr) (mimeType_plain (outputFormat s))], Inl err)"
  by (cases "inputMode s") (simp_all add: try_block_plain_def parse_step_def parse_call_def)

lemma try_plain_rendered:
  "getClient_plain lib (inputFormat s) = Inr ic \<Longrightarrow>
   getClient_plain lib (outputFormat s) = Inr oc \<Longrightarrow>
   parse_step lib ic s = Inr pr \<Longrightarrow> results pr = [] \<Longrightarrow>
   transform lib oc (baseUnit pr) Compatibility = Inr tr \<Longrightarrow>
   render lib oc (baseUnit tr) (mimeType_plain (outputFormat s)) = Inr rendered \<Longrightarrow>
   try_block_plain lib s =
     ([parse_call ic s, Transform oc (baseUnit pr) Compatibility] @
      (if results tr \<noteq> [] then
         [ConsoleWarn ''Transform warnings:'' (join nl (map message (results tr)))]
       else []) @
      [Render oc (baseUnit tr) (mimeType_plain (outputFormat s)), SetOutput rendered], Inr ())"
  by (cases "inputMode s") (simp_all add: try_block_plain_def parse_step_def parse_call_def)

lemma try_styled_input_client_throws:
  "getClient_styled lib (inputFormat s) = Inl err \<Longrightarrow> try_block_styled lib s = ([], Inl err)"
  by (simp add: try_block_styled_def)

lemma try_styled_output_client_throws:
  "getClient_styled lib (inputFormat s) = Inr ic \<Longrightarrow>
   getClient_styled lib (outputFormat s) = Inl err \<Longrightarrow>
   try_block_styled lib s = ([], Inl err)"
  by (simp add: try_block_styled_def)

lemma try_styled_parse_throws:
  "getClient_styled lib (inputFormat s) = Inr ic \<Longrightarrow>
   getClient_styled lib (outputFormat s) = Inr oc \<Longrightarrow>
   parse_step lib ic s = Inl err \<Longrightarrow>
   try_block_styled lib s = ([parse_call ic s], Inl err)"
  by (cases "inputMode s") (simp_all add: try_block_styled_def parse_step_def parse_call_def)

lemma try_styled_parse_diagnostics:
  "getClient_styled lib (inputFormat s) = Inr ic \<Longrightarrow>
   getClient_styled lib (outputFormat s) = Inr oc \<Longrightarrow>
   parse_step lib ic s = Inr pr \<Longrightarrow> results pr \<noteq> [] \<Longrightarrow>
   try_block_styled lib s =
     ([parse_call ic s,
       SetError (''Parsing errors:'' @ nl @ join nl (map message (results pr))),
       SetLoading False], Inr ())"
  by (cases "inputMode s") (simp_all add: try_block_styled_def parse_step_def parse_call_def)

lemma try_styled_transform_throws:
  "getClient_styled lib (inputFormat s) = Inr ic \<Longrightarrow>
   getClient_styled lib (outputFormat s) = Inr oc \<Longrightarrow>
   parse_step lib ic s = Inr pr \<Longrightarrow> results pr = [] \<Longrightarrow>
   transform lib oc (baseUnit pr) Compatibility = Inl err \<Longrightarrow>
   try_block_styled lib s =
     ([parse_call ic s, Transform oc (baseUnit pr) Compatibility], Inl err)"
  by (cases "inputMode s") (simp_all add: try_block_styled_def parse_step_def parse_call_def)

lemma try_styled_render_throws:
  "getClient_styled lib (inputFormat s) = Inr ic \<Longrightarrow>
   getClient_styled lib (outputFormat s) = Inr oc \<Longrightarrow>
   parse_step lib ic s = Inr pr \<Longrightarrow> results pr = [] \<Longrightarrow>
   transform lib oc (baseUnit pr) Compatibility = Inr tr \<Longrightarrow>
   render lib oc (baseUnit tr) (mimeType_styled (outputFormat s)) = Inl err \<Longrightarrow>
   try_block_styled lib s =
     ([parse_call ic s, Transform oc (baseUnit pr) Compatibility] @
      (if results tr \<noteq> [] then
         [ConsoleWarn ''Transform warnings:'' (join nl (map message (results tr)))]
       else []) @
      [Render oc (baseUnit tr) (mimeType_styled (outputFormat s))], Inl err)"
  by (cases "inputMode s") (simp_all add: try_block_styled_def parse_step_def parse_call_def)

lemma try_styled_rendered:
  "getClient_styled lib (inputFormat s) = Inr ic \<Longrightarrow>
   getClient_styled lib (outputFormat s) = Inr oc \<Longrightarrow>
   parse_step lib ic s = Inr pr \<Longrightarrow> results pr = [] \<Longrightarrow>
   transform lib oc (baseUnit pr) Compatibility = Inr tr \<Longrightarrow>
   render lib oc (baseUnit tr) (mimeType_styled (outputFormat s)) = Inr rendered \<Longrightarrow>
   try_block_styled lib s =
     ([parse_call ic s, Transform oc (baseUnit pr) Compatibility] @
      (if results tr \<noteq> [] then
         [ConsoleWarn ''Transform warnings:'' (join nl (map message (results tr)))]
       else []) @
      [Render oc (baseUnit tr) (mimeType_styled (outputFormat s)), SetOutput rendered], Inr ())"
  by (cases "inputMode s") (simp_all add: try_block_styled_def parse_step_def parse_call_def)

subsection \<open>The \<open>catch\<close> block\<close>

lemma emit_conv: "emit es b = (es @ fst b, snd b)"
  by (cases b) simp

lemma catch_block_plain_text:
  "err_text err = Inr text \<Longrightarrow>
   catch_block_plain err = ([SetError (''Conversion error: '' @ text)], Inr ())"
  by (simp add: catch_block_plain_def)

lemma catch_block_styled_text:
  "err_text err = Inr text \<Longrightarrow>
   catch_block_styled err =
     ([ConsoleError ''Conversion error:'' err, SetError (''Conversion error: '' @ text)], Inr ())"
  by (simp add: catch_block_styled_def)

lemma catch_block_plain_effects:
  "e \<in> set (fst (catch_block_plain err)) \<Longrightarrow> \<exists>text. e = SetError text"
  by (simp add: catch_block_plain_def split: sum.splits)

lemma catch_block_styled_effects:
  "e \<in> set (fst (catch_block_styled err)) \<Longrightarrow>
   (\<exists>text. e = SetError text) \<or> e = ConsoleError ''Conversion error:'' err"
  by (auto simp add: catch_block_styled_def split: sum.splits)

lemma catch_block_plain_state [simp]:
  "output' (run_effects s (fst (catch_block_plain err))) = output' s"
  "loading (run_effects s (fst (catch_block_plain err))) = loading s"
  by (simp_all add: catch_block_plain_def run_effects_def split: sum.splits)

lemma catch_block_styled_state [simp]:
  "output' (run_effects s (fst (catch_block_styled err))) = output' s"
  "loading (run_effects s (fst (catch_block_styled err))) = loading s"
  by (simp_all add: catch_block_styled_def run_effects_def split: sum.splits)

lemma catch_block_plain_no_call [simp]:
  "Render c u m \<notin> set (fst (catch_block_plain err))"
  "ParseContent c i m \<notin> set (fst (catch_block_plain err))"
  "ParseDocument c i \<notin> set (fst (catch_block_plain err))"
  "parse_call client s \<notin> set (fst (catch_block_plain err))"
  by (cases "inputMode s"; simp add: catch_block_plain_def parse_call_def split: sum.splits)+

lemma catch_block_styled_no_call [simp]:
  "Render c u m \<notin> set (fst (catch_block_styled err))"
  "ParseContent c i m \<notin> set (fst (catch_block_styled err))"
  "ParseDocument c i \<notin> set (fst (catch_block_styled err))"
  "parse_call client s \<notin> set (fst (catch_block_styled err))"
  by (cases "inputMode s"; simp add: catch_block_styled_def parse_call_def split: sum.splits)+

subsection \<open>The handler around the \<open>try\<close> block\<close>

lemma handleConvert_plain_guard:
  "trim (input s) = [] \<Longrightarrow>
   handleConvert_plain lib s = ([SetError ''Please provide input''], Inr ())"
  by (simp add: handleConvert_plain_def truthy_def)

lemma handleConvert_plain_caught:
  "trim (input s) \<noteq> [] \<Longrightarrow> try_block_plain lib s = (es, Inl err) \<Longrightarrow>
   handleConvert_plain lib s =
     ([SetLoading True, SetError [], SetOutput []] @ es @
      fst (catch_block_plain err) @ [SetLoading False], catch_outcome err)"
  by (simp add: handleConvert_plain_def truthy_def try_catch_finally_def emit_conv
      catch_block_plain_def catch_outcome_def split: sum.splits)

lemma handleConvert_plain_completed:
  "trim (input s) \<noteq> [] \<Longrightarrow> try_block_plain lib s = (es, Inr u) \<Longrightarrow>
   handleConvert_plain lib s =
     ([SetLoading True, SetError [], SetOutput []] @ es @ [SetLoading False], Inr ())"
  by (simp add: handleConvert_plain_def truthy_def try_catch_finally_def)

lemma handleConvert_styled_guard:
  "trim (input s) = [] \<Longrightarrow>
   handleConvert_styled lib s = ([SetError ''Please provide input''], Inr ())"
  by (simp add: handleConvert_styled_def truthy_def)

lemma handleConvert_styled_caught:
  "trim (input s) \<noteq> [] \<Longrightarrow> try_block_styled lib s = (es, Inl err) \<Longrightarrow>
   handleConvert_styled lib s =
     ([SetLoading True, SetError [], SetOutput []] @ es @
      fst (catch_block_styled err) @ [SetLoading False], catch_outcome err)"
  by (simp add: handleConvert_styled_def truthy_def try_catch_finally_def emit_conv
      catch_block_styled_def catch_outcome_def split: sum.splits)

lemma handleConvert_styled_completed:
  "trim (input s) \<noteq> [] \<Longrightarrow> try_block_styled lib s = (es, Inr u) \<Longrightarrow>
   handleConvert_styled lib s =
     ([SetLoading True, SetError [], SetOutput []] @ es @ [SetLoading False], Inr ())"
  by (simp add: handleConvert_styled_def truthy_def try_catch_finally_def)

lemma run_effects_simps:
  "run_effects s [] = s"
  "run_effects s (e # es) = run_effects (apply_effect s e) es"
  "run_effects s (es @ fs) = run_effects (run_effects s es) fs"
  by (simp_all add: run_effects_def)

lemma apply_effect_parse_call [simp]: "apply_effect s (parse_call client s') = s"
  by (cases "inputMode s'") (simp_all add: parse_call_def)

lemma is_library_call_parse_call [simp]: "is_library_call (parse_call client s)"
  by (cases "inputMode s") (simp_all add: parse_call_def)

subsection \<open>The paths through the plain-CSS handler\<close>

lemma plain_input_client_throws:
  "trim (input s) \<noteq> [] \<Longrightarrow> getClient_plain lib (inputFormat s) = Inl err \<Longrightarrow>
   handleConvert_plain lib s =
     ([SetLoading True, SetError [], SetOutput []] @
      fst (catch_block_plain err) @ [SetLoading False], catch_outcome err)"
  using handleConvert_plain_caught [OF _ try_plain_input_client_throws] by fastforce

lemma plain_output_client_throws:
  "trim (input s) \<noteq> [] \<Longrightarrow> getClient_plain lib (inputFormat s) = Inr ic \<Longrightarrow>
   getClient_plain lib (outputFormat s) = Inl err \<Longrightarrow>
   handleConvert_plain lib s =
     ([SetLoading True, SetError [], SetOutput []] @
      fst (catch_block_plain err) @ [SetLoading False], catch_outcome err)"
  using handleConvert_plain_caught [OF _ try_plain_output_client_throws] by fastforce

lemma plain_parse_throws:
  "trim (input s) \<noteq> [] \<Longrightarrow> getClient_plain lib (inputFormat s) = Inr ic \<Longrightarrow>
   getClient_plain lib (outputFormat s) = Inr oc \<Longrightarrow> parse_step lib ic s = Inl err \<Longrightarrow>
   handleConvert_plain lib s =
     ([SetLoading True, SetError [], SetOutput [], parse_call ic s] @
      fst (catch_block_plain err) @ [SetLoading False], catch_outcome err)"
  using handleConvert_plain_caught [OF _ try_plain_parse_throws] by fastforce

lemma plain_parse_diagnostics:
  "trim (input s) \<noteq> [] \<Longrightarrow> getClient_plain lib (inputFormat s) = Inr ic \<Longrightarrow>
   getClient_plain lib (outputFormat s) = Inr oc \<Longrightarrow> parse_step lib ic s = Inr pr \<Longrightarrow>
   results pr \<noteq> [] \<Longrightarrow>
   handleConvert_plain lib s =
     ([SetLoading True, SetError [], SetOutput [], parse_call ic s,
       SetError (''Parsing errors:'' @ nl @ join nl (map message (results pr))),
       SetLoading False, SetLoading False], Inr ())"
  using handleConvert_plain_completed [OF _ try_plain_parse_diagnostics] by fastforce

lemma plain_transform_throws:
  "trim (input s) \<noteq> [] \<Longrightarrow> getClient_plain lib (inputFormat s) = Inr ic \<Longrightarrow>
   getClient_plain lib (outputFormat s) = Inr oc \<Longrightarrow> parse_step lib ic s = Inr pr \<Longrightarrow>
   results pr = [] \<Longrightarrow> transform lib oc (baseUnit pr) Compatibility = Inl err \<Longrightarrow>
   handleConvert_plain lib s =
     ([SetLoading True, SetError [], SetOutput [], parse_call ic s,
       Transform oc (baseUnit pr) Compatibility] @
      fst (catch_block_plain err) @ [SetLoading False], catch_outcome err)"
  using handleConvert_plain_caught [OF _ try_plain_transform_throws] by fastforce

lemma plain_render_throws:
  "trim (input s) \<noteq> [] \<Longrightarrow> getClient_plain lib (inputFormat s) = Inr ic \<Longrightarrow>
   getClient_plain lib (outputFormat s) = Inr oc \<Longrightarrow> parse_step lib ic s = Inr pr \<Longrightarrow>
   results pr = [] \<Longrightarrow> transform lib oc (baseUnit pr) Compatibility = Inr tr \<Longrightarrow>
   render lib oc (baseUnit tr) (mimeType_plain (outputFormat s)) = Inl err \<Longrightarrow>
   handleConvert_plain lib s =
     ([SetLoading True, SetError [], SetOutput [], parse_call ic s,
       Transform oc (baseUnit pr) Compatibility] @
      (if results tr \<noteq> [] then
         [ConsoleWarn ''Transform warnings:'' (join nl (map message (results tr)))]
       else []) @
      [Render oc (baseUnit tr) (mimeType_plain (outputFormat s))] @
      fst (catch_block_plain err) @ [SetLoading False], catch_outcome err)"
  using handleConvert_plain_caught [OF _ try_plain_render_throws] by fastforce

lemma plain_rendered:
  "trim (input s) \<noteq> [] \<Longrightarrow> getClient_plain lib (inputFormat s) = Inr ic \<Longrightarrow>
   getClient_plain lib (outputFormat s) = Inr oc \<Longrightarrow> parse_step lib ic s = Inr pr \<Longrightarrow>
   results pr = [] \<Longrightarrow> transform lib oc (baseUnit pr) Compatibility = Inr tr \<Longrightarrow>
   render lib oc (baseUnit tr) (mimeType_plain (outputFormat s)) = Inr rendered \<Longrightarrow>
   handleConvert_plain lib s =
     ([SetLoading True, SetError [], SetOutput [], parse_call ic s,
       Transform oc (baseUnit pr) Compatibility] @
      (if results tr \<noteq> [] then
         [ConsoleWarn ''Transform warnings:'' (join nl (map message (results tr)))]
       else []) @
      [Render oc (baseUnit tr) (mimeType_plain (outputFormat s)),
       SetOutput rendered, SetLoading False], Inr ())"
  using handleConvert_plain_completed [OF _ try_plain_rendered] by fastforce

lemma plain_paths [case_names guard input_client output_client parse_throws parse_diagnostics
    transform_throws render_throws rendered]:
  fixes lib :: "('c, 'u) AMF" and s :: "Format_plain AppState"
  obtains "trim (input s) = []"
  | err where "trim (input s) \<noteq> []" "getClient_plain lib (inputFormat s) = Inl err"
  | ic err where "trim (input s) \<noteq> []" "getClient_plain lib (inputFormat s) = Inr ic"
      "getClient_plain lib (outputFormat s) = Inl err"
  | ic oc err where "trim (input s) \<noteq> []" "getClient_plain lib (inputFormat s) = Inr ic"
      "getClient_plain lib (outputFormat s) = Inr oc" "parse_step lib ic s = Inl err"
  | ic oc pr where "trim (input s) \<noteq> []" "getClient_plain lib (inputFormat s) = Inr ic"
      "getClient_plain lib (outputFormat s) = Inr oc" "parse_step lib ic s = Inr pr"
      "results pr \<noteq> []"
  | ic oc pr err where "trim (input s) \<noteq> []" "getClient_plain lib (inputFormat s) = Inr ic"
      "getClient_plain lib (outputFormat s) = Inr oc" "parse_step lib ic s = Inr pr"
      "results pr = []" "transform lib oc (baseUnit pr) Compatibility = Inl err"
  | ic oc pr tr err where "trim (input s) \<noteq> []" "getClient_plain lib (inputFormat s) = Inr ic"
      "getClient_plain lib (outputFormat s) = Inr oc" "parse_step lib ic s = Inr pr"
      "results pr = []" "transform lib oc (baseUnit pr) Compatibility = Inr tr"
      "render lib oc (baseUnit tr) (mimeType_plain (outputFormat s)) = Inl err"
  | ic oc pr tr rendered where "trim (input s) \<noteq> []"
      "getClient_plain lib (inputFormat s) = Inr ic"
      "getClient_plain lib (outputFormat s) = Inr oc" "parse_step lib ic s = Inr pr"
      "results pr = []" "transform lib oc (baseUnit pr) Compatibility = Inr tr"
      "render lib oc (baseUnit tr) (mimeType_plain (outputFormat s)) = Inr rendered"
proof (cases "trim (input s) = []")
  case True
  then show ?thesis by (rule that(1))
next
  case ne: False
  show ?thesis
  proof (cases "getClient_plain lib (inputFormat s)")
    case (Inl err)
    with ne show ?thesis by (rule that(2))
  next
    case ic: (Inr ic)
    show ?thesis
    proof (cases "getClient_plain lib (outputFormat s)")
      case (Inl err)
      with ne ic show ?thesis by (rule that(3))
    next
      case oc: (Inr oc)
      show ?thesis
      proof (cases "parse_step lib ic s")
        case (Inl err)
        with ne ic oc show ?thesis by (rule that(4))
      next
        case pr: (Inr pr)
        show ?thesis
        proof (cases "results pr = []")
          case False
          with ne ic oc pr show ?thesis by (rule that(5))
        next
          case clean: True
          show ?thesis
          proof (cases "transform lib oc (baseUnit pr) Compatibility")
            case (Inl err)
            with ne ic oc pr clean show ?thesis by (rule that(6))
          next
            case tr: (Inr tr)
            show ?thesis
            proof (cases "render lib oc (baseUnit tr) (mimeType_plain (outputFormat s))")
              case (Inl err)
              with ne ic oc pr clean tr show ?thesis by (rule that(7))
            next
              case (Inr rendered)
              with ne ic oc pr clean tr show ?thesis by (rule that(8))
            qed
          qed
        qed
      qed
    qed
  qed
qed

subsection \<open>The paths through the styled handler\<close>

lemma styled_input_client_throws:
  "trim (input s) \<noteq> [] \<Longrightarrow> getClient_styled lib (inputFormat s) = Inl err \<Longrightarrow>
   handleConvert_styled lib s =
     ([SetLoading True, SetError [], SetOutput []] @
      fst (catch_block_styled err) @ [SetLoading False], catch_outcome err)"
  using handleConvert_styled_caught [OF _ try_styled_input_client_throws] by fastforce

lemma styled_output_client_throws:
  "trim (input s) \<noteq> [] \<Longrightarrow> getClient_styled lib (inputFormat s) = Inr ic \<Longrightarrow>
   getClient_styled lib (outputFormat s) = Inl err \<Longrightarrow>
   handleConvert_styled lib s =
     ([SetLoading True, SetError [], SetOutput []] @
      fst (catch_block_styled err) @ [SetLoading False], catch_outcome err)"
  using handleConvert_styled_caught [OF _ try_styled_output_client_throws] by fastforce

lemma styled_parse_throws:
  "trim (input s) \<noteq> [] \<Longrightarrow> getClient_styled lib (inputFormat s) = Inr ic \<Longrightarrow>
   getClient_styled lib (outputFormat s) = Inr oc \<Longrightarrow> parse_step lib ic s = Inl err \<Longrightarrow>
   handleConvert_styled lib s =
     ([SetLoading True, SetError [], SetOutput [], parse_call ic s] @
      fst (catch_block_styled err) @ [SetLoading False], catch_outcome err)"
  using handleConvert_styled_caught [OF _ try_styled_parse_throws] by fastforce

lemma styled_parse_diagnostics:
  "trim (input s) \<noteq> [] \<Longrightarrow> getClient_styled lib (inputFormat s) = Inr ic \<Longrightarrow>
   getClient_styled lib (outputFormat s) = Inr oc \<Longrightarrow> parse_step lib ic s = Inr pr \<Longrightarrow>
   results pr \<noteq> [] \<Longrightarrow>
   handleConvert_styled lib s =
     ([SetLoading True, SetError [], SetOutput [], parse_call ic s,
       SetError (''Parsing errors:'' @ nl @ join nl (map message (results pr))),
       SetLoading False, SetLoading False], Inr ())"
  using handleConvert_styled_completed [OF _ try_styled_parse_diagnostics] by fastforce

lemma styled_transform_throws:
  "trim (input s) \<noteq> [] \<Longrightarrow> getClient_styled lib (inputFormat s) = Inr ic \<Longrightarrow>
   getClient_styled lib (outputFormat s) = Inr oc \<Longrightarrow> parse_step lib ic s = Inr pr \<Longrightarrow>
   results pr = [] \<Longrightarrow> transform lib oc (baseUnit pr) Compatibility = Inl err \<Longrightarrow>
   handleConvert_styled lib s =
     ([SetLoading True, SetError [], SetOutput [], parse_call ic s,
       Transform oc (baseUnit pr) Compatibility] @
      fst (catch_block_styled err) @ [SetLoading False], catch_outcome err)"
  using handleConvert_styled_caught [OF _ try_styled_transform_throws] by fastforce

lemma styled_render_throws:
  "trim (input s) \<noteq> [] \<Longrightarrow> getClient_styled lib (inputFormat s) = Inr ic \<Longrightarrow>
   getClient_styled lib (outputFormat s) = Inr oc \<Longrightarrow> parse_step lib ic s = Inr pr \<Longrightarrow>
   results pr = [] \<Longrightarrow> transform lib oc (baseUnit pr) Compatibility = Inr tr \<Longrightarrow>
   render lib oc (baseUnit tr) (mimeType_styled (outputFormat s)) = Inl err \<Longrightarrow>
   handleConvert_styled lib s =
     ([SetLoading True, SetError [], SetOutput [], parse_call ic s,
       Transform oc (baseUnit pr) Compatibility] @
      (if results tr \<noteq> [] then
         [ConsoleWarn ''Transform warnings:'' (join nl (map message (results tr)))]
       else []) @
      [Render oc (baseUnit tr) (mimeType_styled (outputFormat s))] @
      fst (catch_block_styled err) @ [SetLoading False], catch_outcome err)"
  using handleConvert_styled_caught [OF _ try_styled_render_throws] by fastforce

lemma styled_rendered:
  "trim (input s) \<noteq> [] \<Longrightarrow> getClient_styled lib (inputFormat s) = Inr ic \<Longrightarrow>
   getClient_styled lib (outputFormat s) = Inr oc \<Longrightarrow> parse_step lib ic s = Inr pr \<Longrightarrow>
   results pr = [] \<Longrightarrow> transform lib oc (baseUnit pr) Compatibility = Inr tr \<Longrightarrow>
   render lib oc (baseUnit tr) (mimeType_styled (outputFormat s)) = Inr rendered \<Longrightarrow>
   handleConvert_styled lib s =
     ([SetLoading True, SetError [], SetOutput [], parse_call ic s,
       Transform oc (baseUnit pr) Compatibility] @
      (if results tr \<noteq> [] then
         [ConsoleWarn ''Transform warnings:'' (join nl (map message (results tr)))]
       else []) @
      [Render oc (baseUnit tr) (mimeType_styled (outputFormat s)),
       SetOutput rendered, SetLoading False], Inr ())"
  using handleConvert_styled_completed [OF _ try_styled_rendered] by fastforce

lemma styled_paths [case_names guard input_client output_client parse_throws parse_diagnostics
    transform_throws render_throws rendered]:
  fixes lib :: "('c, 'u) AMF" and s :: "Format_styled AppState"
  obtains "trim (input s) = []"
  | err where "trim (input s) \<noteq> []" "getClient_styled lib (inputFormat s) = Inl err"
  | ic err where "trim (input s) \<noteq> []" "getClient_styled lib (inputFormat s) = Inr ic"
      "getClient_styled lib (outputFormat s) = Inl err"
  | ic oc err where "trim (input s) \<noteq> []" "getClient_styled lib (inputFormat s) = Inr ic"
      "getClient_styled lib (outputFormat s) = Inr oc" "parse_step lib ic s = Inl err"
  | ic oc pr where "trim (input s) \<noteq> []" "getClient_styled lib (inputFormat s) = Inr ic"
      "getClient_styled lib (outputFormat s) = Inr oc" "parse_step lib ic s = Inr pr"
      "results pr \<noteq> []"
  | ic oc pr err where "trim (input s) \<noteq> []" "getClient_styled lib (inputFormat s) = Inr ic"
      "getClient_styled lib (outputFormat s) = Inr oc" "parse_step lib ic s = Inr pr"
      "results pr = []" "transform lib oc (baseUnit pr) Compatibility = Inl err"
  | ic oc pr tr err where "trim (input s) \<noteq> []" "getClient_styled lib (inputFormat s) = Inr ic"
      "getClient_styled lib (outputFormat s) = Inr oc" "parse_step lib ic s = Inr pr"
      "results pr = []" "transform lib oc (baseUnit pr) Compatibility = Inr tr"
      "render lib oc (baseUnit tr) (mimeType_styled (outputFormat s)) = Inl err"
  | ic oc pr tr rendered where "trim (input s) \<noteq> []"
      "getClient_styled lib (inputFormat s) = Inr ic"
      "getClient_styled lib (outputFormat s) = Inr oc" "parse_step lib ic s = Inr pr"
      "results pr = []" "transform lib oc (baseUnit pr) Compatibility = Inr tr"
      "render lib oc (baseUnit tr) (mimeType_styled (outputFormat s)) = Inr rendered"
proof (cases "trim (input s) = []")
  case True
  then show ?thesis by (rule that(1))
next
  case ne: False
  show ?thesis
  proof (cases "getClient_styled lib (inputFormat s)")
    case (Inl err)
    with ne show ?thesis by (rule that(2))
  next
    case ic: (Inr ic)
    show ?thesis
    proof (cases "getClient_styled lib (outputFormat s)")
      case (Inl err)
      with ne ic show ?thesis by (rule that(3))
    next
      case oc: (Inr oc)
      show ?thesis
      proof (cases "parse_step lib ic s")
        case (Inl err)
        with ne ic oc show ?thesis by (rule that(4))
      next
        case pr: (Inr pr)
        show ?thesis
        proof (cases "results pr = []")
          case False
          with ne ic oc pr show ?thesis by (rule that(5))
        next
          case clean: True
          show ?thesis
          proof (cases "transform lib oc (baseUnit pr) Compatibility")
            case (Inl err)
            with ne ic oc pr clean show ?thesis by (rule that(6))
          next
            case tr: (Inr tr)
            show ?thesis
            proof (cases "render lib oc (baseUnit tr) (mimeType_styled (outputFormat s))")
              case (Inl err)
              with ne ic oc pr clean tr show ?thesis by (rule that(7))
            next
              case (Inr rendered)
              with ne ic oc pr clean tr show ?thesis by (rule that(8))
            qed
          qed
        qed
      qed
    qed
  qed
qed

section \<open>Properties of the conversion handler\<close>

text \<open>
  C8. When the trimmed input is empty, \<open>handleConvert\<close> only reports
  \<open>Please provide input\<close> and returns: it makes no parse, transform or render call and
  never calls \<open>setLoading(true)\<close>, in either variant.
\<close>

theorem empty_input_guard:
  "(trim (input sp) = [] \<longrightarrow>
      handleConvert_plain lib sp = ([SetError ''Please provide input''], Inr ()) \<and>
      (\<forall>e \<in> set (fst (handleConvert_plain lib sp)). \<not> is_library_call e \<and> e \<noteq> SetLoading True) \<and>
      loading (after_plain lib sp) = loading sp) \<and>
   (trim (input ss) = [] \<longrightarrow>
      handleConvert_styled lib ss = ([SetError ''Please provide input''], Inr ()) \<and>
      (\<forall>e \<in> set (fst (handleConvert_styled lib ss)). \<not> is_library_call e \<and> e \<noteq> SetLoading True) \<and>
      loading (after_styled lib ss) = loading ss)"
  by (simp add: handleConvert_plain_guard handleConvert_styled_guard after_plain_def
      after_styled_def run_effects_simps)

theorem empty_input_guard_witness:
  "trim (input (sample_plain Content '' '' [] [])) = [] \<and>
   handleConvert_plain sample_amf (sample_plain Content '' '' [] []) =
     ([SetError ''Please provide input''], Inr ()) \<and>
   trim (input (sample_styled Url [] [] [])) = [] \<and>
   handleConvert_styled sample_amf (sample_styled Url [] [] []) =
     ([SetError ''Please provide input''], Inr ())"
  using empty_input_guard [of "sample_plain Content '' '' [] []" sample_amf
      "sample_styled Url [] [] []"]
  by (simp add: sample_defs)

lemma join_Cons: "join sep (x # xs) = x @ concat (map (\<lambda>y. sep @ y) xs)"
  by (induction xs arbitrary: x) simp_all

lemma parse_error_text:
  "rs \<noteq> [] \<Longrightarrow>
   ''Parsing errors:'' @ nl @ join nl (map message rs) =
   ''Parsing errors:'' @ [CHR 0x0A] @ message (hd rs) @
     concat (map (\<lambda>r. CHR 0x0A # message r) (tl rs))"
  by (cases rs) (simp_all add: join_Cons nl_def comp_def)

text \<open>
  C1. When the parse step of an attempt returns a non-empty diagnostic list, the attempt
  ends there: the effects are exactly the three initial setter calls, the parse call, the
  error report and two \<open>setLoading(false)\<close> calls (so no transform or render call);
  afterwards the output is empty and the error is \<open>Parsing errors:\<close>, a line feed, the
  message of the first diagnostic and, for each further diagnostic, a line feed and its
  message.
\<close>

theorem parse_diagnostics_abort:
  "(trim (input sp) \<noteq> [] \<and>
    getClient_plain lib (inputFormat sp) = Inr icp \<and>
    getClient_plain lib (outputFormat sp) = Inr ocp \<and>
    parse_step lib icp sp = Inr prp \<and> results prp \<noteq> [] \<longrightarrow>
      handleConvert_plain lib sp =
        ([SetLoading True, SetError [], SetOutput [], parse_call icp sp,
          SetError (''Parsing errors:'' @ [CHR 0x0A] @ message (hd (results prp)) @
            concat (map (\<lambda>r. CHR 0x0A # message r) (tl (results prp)))),
          SetLoading False, SetLoading False], Inr ()) \<and>
      output' (after_plain lib sp) = [] \<and>
      error (after_plain lib sp) =
        ''Parsing errors:'' @ [CHR 0x0A] @ message (hd (results prp)) @
          concat (map (\<lambda>r. CHR 0x0A # message r) (tl (results prp)))) \<and>
   (trim (input ss) \<noteq> [] \<and>
    getClient_styled lib (inputFormat ss) = Inr ics \<and>
    getClient_styled lib (outputFormat ss) = Inr ocs \<and>
    parse_step lib ics ss = Inr prs \<and> results prs \<noteq> [] \<longrightarrow>
      handleConvert_styled lib ss =
        ([SetLoading True, SetError [], SetOutput [], parse_call ics ss,
          SetError (''Parsing errors:'' @ [CHR 0x0A] @ message (hd (results prs)) @
            concat (map (\<lambda>r. CHR 0x0A # message r) (tl (results prs)))),
          SetLoading False, SetLoading False], Inr ()) \<and>
      output' (after_styled lib ss) = [] \<and>
      error (after_styled lib ss) =
        ''Parsing errors:'' @ [CHR 0x0A] @ message (hd (results prs)) @
          concat (map (\<lambda>r. CHR 0x0A # message r) (tl (results prs))))"
proof (intro conjI impI; (elim conjE)?)
  assume h: "trim (input sp) \<noteq> []" "getClient_plain lib (inputFormat sp) = Inr icp"
    "getClient_plain lib (outputFormat sp) = Inr ocp" "parse_step lib icp sp = Inr prp"
    "results prp \<noteq> []"
  show tr: "handleConvert_plain lib sp =
        ([SetLoading True, SetError [], SetOutput [], parse_call icp sp,
          SetError (''Parsing errors:'' @ [CHR 0x0A] @ message (hd (results prp)) @
            concat (map (\<lambda>r. CHR 0x0A # message r) (tl (results prp)))),
          SetLoading False, SetLoading False], Inr ())"
    using plain_parse_diagnostics [OF h] parse_error_text [OF h(5)] by simp
  show "output' (after_plain lib sp) = []"
    by (simp add: after_plain_def tr run_effects_simps)
  show "error (after_plain lib sp) =
        ''Parsing errors:'' @ [CHR 0x0A] @ message (hd (results prp)) @
          concat (map (\<lambda>r. CHR 0x0A # message r) (tl (results prp)))"
    by (simp add: after_plain_def tr run_effects_simps)
next
  assume h: "trim (input ss) \<noteq> []" "getClient_styled lib (inputFormat ss) = Inr ics"
    "getClient_styled lib (outputFormat ss) = Inr ocs" "parse_step lib ics ss = Inr prs"
    "results prs \<noteq> []"
  show tr: "handleConvert_styled lib ss =
        ([SetLoading True, SetError [], SetOutput [], parse_call ics ss,
          SetError (''Parsing errors:'' @ [CHR 0x0A] @ message (hd (results prs)) @
            concat (map (\<lambda>r. CHR 0x0A # message r) (tl (results prs)))),
          SetLoading False, SetLoading False], Inr ())"
    using styled_parse_diagnostics [OF h] parse_error_text [OF h(5)] by simp
  show "output' (after_styled lib ss) = []"
    by (simp add: after_styled_def tr run_effects_simps)
  show "error (after_styled lib ss) =
        ''Parsing errors:'' @ [CHR 0x0A] @ message (hd (results prs)) @
          concat (map (\<lambda>r. CHR 0x0A # message r) (tl (results prs)))"
    by (simp add: after_styled_def tr run_effects_simps)
qed

theorem parse_diagnostics_abort_witness:
  "handleConvert_plain sample_amf (sample_plain Content ''swagger'' ''old'' []) =
     ([SetLoading True, SetError [], SetOutput [],
       ParseContent OAS20 ''swagger'' ''application/yaml'',
       SetError (''Parsing errors:'' @ [CHR 0x0A] @ ''Syntax error'' @ [CHR 0x0A] @
         ''Unexpected key'' @ [CHR 0x0A] @ ''Missing title''),
       SetLoading False, SetLoading False], Inr ()) \<and>
   output' (after_plain sample_amf (sample_plain Content ''swagger'' ''old'' [])) = [] \<and>
   error (after_styled sample_amf (sample_styled Content ''swagger'' ''old'' [])) =
     ''Parsing errors:'' @ [CHR 0x0A] @ ''Syntax error'' @ [CHR 0x0A] @
       ''Unexpected key'' @ [CHR 0x0A] @ ''Missing title''"
  using parse_diagnostics_abort [of "sample_plain Content ''swagger'' ''old'' []" sample_amf
      OAS20 RAML10
      "\<lparr>baseUnit = ''swagger'',
        results = [\<lparr>message = ''Syntax error''\<rparr>, \<lparr>message = ''Unexpected key''\<rparr>,
                   \<lparr>message = ''Missing title''\<rparr>]\<rparr>"
      "sample_styled Content ''swagger'' ''old'' []" RAML08 OAS30
      "\<lparr>baseUnit = ''swagger'',
        results = [\<lparr>message = ''Syntax error''\<rparr>, \<lparr>message = ''Unexpected key''\<rparr>,
                   \<lparr>message = ''Missing title''\<rparr>]\<rparr>"]
  by (simp add: sample_defs)

lemma plain_warned:
  assumes "trim (input s) \<noteq> []" "getClient_plain lib (inputFormat s) = Inr ic"
    "getClient_plain lib (outputFormat s) = Inr oc" "parse_step lib ic s = Inr pr"
    "results pr = []" "transform lib oc (baseUnit pr) Compatibility = Inr tr"
    "results tr \<noteq> []"
  shows "fst (handleConvert_plain lib s) =
        [SetLoading True, SetError [], SetOutput [], parse_call ic s,
         Transform oc (baseUnit pr) Compatibility,
         ConsoleWarn ''Transform warnings:'' (join nl (map message (results tr))),
         Render oc (baseUnit tr) (mimeType_plain (outputFormat s))] @
        (case render lib oc (baseUnit tr) (mimeType_plain (outputFormat s)) of
           Inl err \<Rightarrow>
             (case err_text err of
                Inl thrown \<Rightarrow> []
              | Inr text \<Rightarrow> [SetError (''Conversion error: '' @ text)])
         | Inr rendered \<Rightarrow> [SetOutput rendered]) @
        [SetLoading False] \<and>
      (\<forall>rendered. render lib oc (baseUnit tr) (mimeType_plain (outputFormat s)) = Inr rendered
         \<longrightarrow> output' (after_plain lib s) = rendered \<and> error (after_plain lib s) = [])"
proof (cases "render lib oc (baseUnit tr) (mimeType_plain (outputFormat s))")
  case (Inl err)
  show ?thesis
    using plain_render_throws [OF assms(1-6) Inl] assms(7) Inl
    by (simp add: catch_block_plain_def split: sum.splits)
next
  case (Inr rendered)
  show ?thesis
    using plain_rendered [OF assms(1-6) Inr] assms(7) Inr
    by (simp add: after_plain_def run_effects_simps)
qed

lemma styled_warned:
  assumes "trim (input s) \<noteq> []" "getClient_styled lib (inputFormat s) = Inr ic"
    "getClient_styled lib (outputFormat s) = Inr oc" "parse_step lib ic s = Inr pr"
    "results pr = []" "transform lib oc (baseUnit pr) Compatibility = Inr tr"
    "results tr \<noteq> []"
  shows "fst (handleConvert_styled lib s) =
        [SetLoading True, SetError [], SetOutput [], parse_call ic s,
         Transform oc (baseUnit pr) Compatibility,
         ConsoleWarn ''Transform warnings:'' (join nl (map message (results tr))),
         Render oc (baseUnit tr) (mimeType_styled (outputFormat s))] @
        (case render lib oc (baseUnit tr) (mimeType_styled (outputFormat s)) of
           Inl err \<Rightarrow>
             ConsoleError ''Conversion error:'' err #
             (case err_text err of
                Inl thrown \<Rightarrow> []
              | Inr text \<Rightarrow> [SetError (''Conversion error: '' @ text)])
         | Inr rendered \<Rightarrow> [SetOutput rendered]) @
        [SetLoading False] \<and>
      (\<forall>rendered. render lib oc (baseUnit tr) (mimeType_styled (outputFormat s)) = Inr rendered
         \<longrightarrow> output' (after_styled lib s) = rendered \<and> error (after_styled lib s) = [])"
proof (cases "render lib oc (baseUnit tr) (mimeType_styled (outputFormat s))")
  case (Inl err)
  show ?thesis
    using styled_render_throws [OF assms(1-6) Inl] assms(7) Inl
    by (simp add: catch_block_styled_def split: sum.splits)
next
  case (Inr rendered)
  show ?thesis
    using styled_rendered [OF assms(1-6) Inr] assms(7) Inr
    by (simp add: after_styled_def run_effects_simps)
qed

text \<open>
  C4. When the transform step returns a non-empty diagnostic list, the attempt goes on:
  the diagnostics are written with \<open>console.warn\<close>, the transformed document is rendered,
  and when \<open>render\<close> returns a text the output is that text and the error is empty.
\<close>

theorem transform_diagnostics_logged:
  "(trim (input sp) \<noteq> [] \<and>
    getClient_plain lib (inputFormat sp) = Inr icp \<and>
    getClient_plain lib (outputFormat sp) = Inr ocp \<and>
    parse_step lib icp sp = Inr prp \<and> results prp = [] \<and>
    transform lib ocp (baseUnit prp) Compatibility = Inr trp \<and> results trp \<noteq> [] \<longrightarrow>
      fst (handleConvert_plain lib sp) =
        [SetLoading True, SetError [], SetOutput [], parse_call icp sp,
         Transform ocp (baseUnit prp) Compatibility,
         ConsoleWarn ''Transform warnings:'' (join nl (map message (results trp))),
         Render ocp (baseUnit trp) (mimeType_plain (outputFormat sp))] @
        (case render lib ocp (baseUnit trp) (mimeType_plain (outputFormat sp)) of
           Inl err \<Rightarrow>
             (case err_text err of
                Inl thrown \<Rightarrow> []
              | Inr text \<Rightarrow> [SetError (''Conversion error: '' @ text)])
         | Inr rendered \<Rightarrow> [SetOutput rendered]) @
        [SetLoading False] \<and>
      (\<forall>rendered. render lib ocp (baseUnit trp) (mimeType_plain (outputFormat sp)) = Inr rendered
         \<longrightarrow> output' (after_plain lib sp) = rendered \<and> error (after_plain lib sp) = [])) \<and>
   (trim (input ss) \<noteq> [] \<and>
    getClient_styled lib (inputFormat ss) = Inr ics \<and>
    getClient_styled lib (outputFormat ss) = Inr ocs \<and>
    parse_step lib ics ss = Inr prs \<and> results prs = [] \<and>
    transform lib ocs (baseUnit prs) Compatibility = Inr trs \<and> results trs \<noteq> [] \<longrightarrow>
      fst (handleConvert_styled lib ss) =
        [SetLoading True, SetError [], SetOutput [], parse_call ics ss,
         Transform ocs (baseUnit prs) Compatibility,
         ConsoleWarn ''Transform warnings:'' (join nl (map message (results trs))),
         Render ocs (baseUnit trs) (mimeType_styled (outputFormat ss))] @
        (case render lib ocs (baseUnit trs) (mimeType_styled (outputFormat ss)) of
           Inl err \<Rightarrow>
             ConsoleError ''Conversion error:'' err #
             (case err_text err of
                Inl thrown \<Rightarrow> []
              | Inr text \<Rightarrow> [SetError (''Conversion error: '' @ text)])
         | Inr rendered \<Rightarrow> [SetOutput rendered]) @
        [SetLoading False] \<and>
      (\<forall>rendered. render lib ocs (baseUnit trs) (mimeType_styled (outputFormat ss)) = Inr rendered
         \<longrightarrow> output' (after_styled lib ss) = rendered \<and> error (after_styled lib ss) = []))"
proof (rule conjI)
  show "trim (input sp) \<noteq> [] \<and>
    getClient_plain lib (inputFormat sp) = Inr icp \<and>
    getClient_plain lib (outputFormat sp) = Inr ocp \<and>
    parse_step lib icp sp = Inr prp \<and> results prp = [] \<and>
    transform lib ocp (baseUnit prp) Compatibility = Inr trp \<and> results trp \<noteq> [] \<longrightarrow>
      fst (handleConvert_plain lib sp) =
        [SetLoading True, SetError [], SetOutput [], parse_call icp sp,
         Transform ocp (baseUnit prp) Compatibility,
         ConsoleWarn ''Transform warnings:'' (join nl (map message (results trp))),
         Render ocp (baseUnit trp) (mimeType_plain (outputFormat sp))] @
        (case render lib ocp (baseUnit trp) (mimeType_plain (outputFormat sp)) of
           Inl err \<Rightarrow>
             (case err_text err of
                Inl thrown \<Rightarrow> []
              | Inr text \<Rightarrow> [SetError (''Conversion error: '' @ text)])
         | Inr rendered \<Rightarrow> [SetOutput rendered]) @
        [SetLoading False] \<and>
      (\<forall>rendered. render lib ocp (baseUnit trp) (mimeType_plain (outputFormat sp)) = Inr rendered
         \<longrightarrow> output' (after_plain lib sp) = rendered \<and> error (after_plain lib sp) = [])"
    by (rule impI, elim conjE, rule plain_warned)
next
  show "trim (input ss) \<noteq> [] \<and>
    getClient_styled lib (inputFormat ss) = Inr ics \<and>
    getClient_styled lib (outputFormat ss) = Inr ocs \<and>
    parse_step lib ics ss = Inr prs \<and> results prs = [] \<and>
    transform lib ocs (baseUnit prs) Compatibility = Inr trs \<and> results trs \<noteq> [] \<longrightarrow>
      fst (handleConvert_styled lib ss) =
        [SetLoading True, SetError [], SetOutput [], parse_call ics ss,
         Transform ocs (baseUnit prs) Compatibility,
         ConsoleWarn ''Transform warnings:'' (join nl (map message (results trs))),
         Render ocs (baseUnit trs) (mimeType_styled (outputFormat ss))] @
        (case render lib ocs (baseUnit trs) (mimeType_styled (outputFormat ss)) of
           Inl err \<Rightarrow>
             ConsoleError ''Conversion error:'' err #
             (case err_text err of
                Inl thrown \<Rightarrow> []
              | Inr text \<Rightarrow> [SetError (''Conversion error: '' @ text)])
         | Inr rendered \<Rightarrow> [SetOutput rendered]) @
        [SetLoading False] \<and>
      (\<forall>rendered. render lib ocs (baseUnit trs) (mimeType_styled (outputFormat ss)) = Inr rendered
         \<longrightarrow> output' (after_styled lib ss) = rendered \<and> error (after_styled lib ss) = [])"
    by (rule impI, elim conjE, rule styled_warned)
qed

theorem transform_diagnostics_logged_witness:
  "fst (handleConvert_plain sample_amf (sample_plain Content ''#%RAML'' [] ''old error'')) =
     [SetLoading True, SetError [], SetOutput [],
      ParseContent OAS20 ''#%RAML'' ''application/yaml'',
      Transform RAML10 ''#%RAML'' Compatibility,
      ConsoleWarn ''Transform warnings:'' ''Lossy conversion'',
      Render RAML10 ''#%RAML'' ''application/yaml'',
      SetOutput ''application/yaml #%RAML'', SetLoading False] \<and>
   output' (after_styled sample_amf (sample_styled Content ''#%RAML'' [] ''old error'')) =
     ''application/json #%RAML''"
  using transform_diagnostics_logged [of "sample_plain Content ''#%RAML'' [] ''old error''"
      sample_amf OAS20 RAML10 "\<lparr>baseUnit = ''#%RAML'', results = []\<rparr>"
      "\<lparr>baseUnit = ''#%RAML'', results = [\<lparr>message = ''Lossy conversion''\<rparr>]\<rparr>"
      "sample_styled Content ''#%RAML'' [] ''old error''" RAML08 OAS30
      "\<lparr>baseUnit = ''#%RAML'', results = []\<rparr>"
      "\<lparr>baseUnit = ''#%RAML'', results = [\<lparr>message = ''Lossy conversion''\<rparr>]\<rparr>"]
  by (simp add: sample_defs)

lemma plain_thrown:
  assumes ne: "trim (input s) \<noteq> []"
    and stage:
    "(getClient_plain lib (inputFormat s) = Inl err \<or>
      getClient_plain lib (inputFormat s) = Inr ic \<and>
      (getClient_plain lib (outputFormat s) = Inl err \<or>
       getClient_plain lib (outputFormat s) = Inr oc \<and>
       (parse_step lib ic s = Inl err \<or>
        parse_step lib ic s = Inr pr \<and> results pr = [] \<and>
        (transform lib oc (baseUnit pr) Compatibility = Inl err \<or>
         transform lib oc (baseUnit pr) Compatibility = Inr tr \<and>
         render lib oc (baseUnit tr) (mimeType_plain (outputFormat s)) = Inl err))))"
  shows "snd (handleConvert_plain lib s) = catch_outcome err \<and>
      \<not> loading (after_plain lib s) \<and> output' (after_plain lib s) = [] \<and>
      (\<forall>text. err_text err = Inr text \<longrightarrow>
         error (after_plain lib s) = ''Conversion error: '' @ text)"
  using stage
proof (elim disjE conjE)
  assume "getClient_plain lib (inputFormat s) = Inl err"
  from plain_input_client_throws [OF ne this] show ?thesis
    by (cases "err_text err")
       (simp_all add: after_plain_def run_effects_simps catch_block_plain_def catch_outcome_def)
next
  assume "getClient_plain lib (inputFormat s) = Inr ic"
    "getClient_plain lib (outputFormat s) = Inl err"
  from plain_output_client_throws [OF ne this] show ?thesis
    by (cases "err_text err")
       (simp_all add: after_plain_def run_effects_simps catch_block_plain_def catch_outcome_def)
next
  assume "getClient_plain lib (inputFormat s) = Inr ic"
    "getClient_plain lib (outputFormat s) = Inr oc" "parse_step lib ic s = Inl err"
  from plain_parse_throws [OF ne this] show ?thesis
    by (cases "err_text err")
       (simp_all add: after_plain_def run_effects_simps catch_block_plain_def catch_outcome_def)
next
  assume "getClient_plain lib (inputFormat s) = Inr ic"
    "getClient_plain lib (outputFormat s) = Inr oc" "parse_step lib ic s = Inr pr"
    "results pr = []" "transform lib oc (baseUnit pr) Compatibility = Inl err"
  from plain_transform_throws [OF ne this] show ?thesis
    by (cases "err_text err")
       (simp_all add: after_plain_def run_effects_simps catch_block_plain_def catch_outcome_def)
next
  assume "getClient_plain lib (inputFormat s) = Inr ic"
    "getClient_plain lib (outputFormat s) = Inr oc" "parse_step lib ic s = Inr pr"
    "results pr = []" "transform lib oc (baseUnit pr) Compatibility = Inr tr"
    "render lib oc (baseUnit tr) (mimeType_plain (outputFormat s)) = Inl err"
  from plain_render_throws [OF ne this] show ?thesis
    by (cases "err_text err")
       (simp_all add: after_plain_def run_effects_simps catch_block_plain_def catch_outcome_def)
qed

lemma styled_thrown:
  assumes ne: "trim (input s) \<noteq> []"
    and stage:
    "(getClient_styled lib (inputFormat s) = Inl err \<or>
      getClient_styled lib (inputFormat s) = Inr ic \<and>
      (getClient_styled lib (outputFormat s) = Inl err \<or>
       getClient_styled lib (outputFormat s) = Inr oc \<and>
       (parse_step lib ic s = Inl err \<or>
        parse_step lib ic s = Inr pr \<and> results pr = [] \<and>
        (transform lib oc (baseUnit pr) Compatibility = Inl err \<or>
         transform lib oc (baseUnit pr) Compatibility = Inr tr \<and>
         render lib oc (baseUnit tr) (mimeType_styled (outputFormat s)) = Inl err))))"
  shows "snd (handleConvert_styled lib s) = catch_outcome err \<and>
      \<not> loading (after_styled lib s) \<and> output' (after_styled lib s) = [] \<and>
      (\<forall>text. err_text err = Inr text \<longrightarrow>
         error (after_styled lib s) = ''Conversion error: '' @ text)"
  using stage
proof (elim disjE conjE)
  assume "getClient_styled lib (inputFormat s) = Inl err"
  from styled_input_client_throws [OF ne this] show ?thesis
    by (cases "err_text err")
       (simp_all add: after_styled_def run_effects_simps catch_block_styled_def catch_outcome_def)
next
  assume "getClient_styled lib (inputFormat s) = Inr ic"
    "getClient_styled lib (outputFormat s) = Inl err"
  from styled_output_client_throws [OF ne this] show ?thesis
    by (cases "err_text err")
       (simp_all add: after_styled_def run_effects_simps catch_block_styled_def catch_outcome_def)
next
  assume "getClient_styled lib (inputFormat s) = Inr ic"
    "getClient_styled lib (outputFormat s) = Inr oc" "parse_step lib ic s = Inl err"
  from styled_parse_throws [OF ne this] show ?thesis
    by (cases "err_text err")
       (simp_all add: after_styled_def run_effects_simps catch_block_styled_def catch_outcome_def)
next
  assume "getClient_styled lib (inputFormat s) = Inr ic"
    "getClient_styled lib (outputFormat s) = Inr oc" "parse_step lib ic s = Inr pr"
    "results pr = []" "transform lib oc (baseUnit pr) Compatibility = Inl err"
  from styled_transform_throws [OF ne this] show ?thesis
    by (cases "err_text err")
       (simp_all add: after_styled_def run_effects_simps catch_block_styled_def catch_outcome_def)
next
  assume "getClient_styled lib (inputFormat s) = Inr ic"
    "getClient_styled lib (outputFormat s) = Inr oc" "parse_step lib ic s = Inr pr"
    "results pr = []" "transform lib oc (baseUnit pr) Compatibility = Inr tr"
    "render lib oc (baseUnit tr) (mimeType_styled (outputFormat s)) = Inl err"
  from styled_render_throws [OF ne this] show ?thesis
    by (cases "err_text err")
       (simp_all add: after_styled_def run_effects_simps catch_block_styled_def catch_outcome_def)
qed

theorem exceptions_caught_counterexample:
  "parse_step sample_amf OAS20 (sample_plain Url ''ftp://x'' [] []) =
     Inl (JsValue (Inl (JsError (Inr ''Cannot convert object to primitive value'')))) \<and>
   snd (handleConvert_plain sample_amf (sample_plain Url ''ftp://x'' [] [])) =
     Inl (JsError (Inr ''Cannot convert object to primitive value'')) \<and>
   error (after_plain sample_amf (sample_plain Url ''ftp://x'' [] [])) = [] \<and>
   snd (handleConvert_styled sample_amf (sample_styled Url ''ftp://x'' [] [])) =
     Inl (JsError (Inr ''Cannot convert object to primitive value'')) \<and>
   error (after_styled sample_amf (sample_styled Url ''ftp://x'' [] [])) = []"
  by (simp add: after_plain_def after_styled_def handleConvert_plain_def
      handleConvert_styled_def try_block_plain_def try_block_styled_def
      try_catch_finally_def catch_block_plain_def catch_block_styled_def truthy_def
      run_effects_simps sample_defs)

text \<open>
  C5, as amended. When selecting either client, the parse step, the transformation or the
  rendering throws \<open>err\<close>, the \<open>catch\<close> block runs, and afterwards the output is empty
  and \<open>loading\<close> is false. When \<open>err\<close> is an \<open>Error\<close> whose message is the text
  \<open>msg\<close>, or another value whose \<open>String\<close> form is \<open>str\<close>, \<open>handleConvert\<close> ends
  without throwing and the error is \<open>Conversion error: \<close> followed by \<open>msg\<close>,
  respectively \<open>str\<close>.
\<close>

theorem exceptions_caught:
  "(trim (input sp) \<noteq> [] \<and>
    (getClient_plain lib (inputFormat sp) = Inl errp \<or>
     getClient_plain lib (inputFormat sp) = Inr icp \<and>
     (getClient_plain lib (outputFormat sp) = Inl errp \<or>
      getClient_plain lib (outputFormat sp) = Inr ocp \<and>
      (parse_step lib icp sp = Inl errp \<or>
       parse_step lib icp sp = Inr prp \<and> results prp = [] \<and>
       (transform lib ocp (baseUnit prp) Compatibility = Inl errp \<or>
        transform lib ocp (baseUnit prp) Compatibility = Inr trp \<and>
        render lib ocp (baseUnit trp) (mimeType_plain (outputFormat sp)) = Inl errp)))) \<longrightarrow>
      \<not> loading (after_plain lib sp) \<and> output' (after_plain lib sp) = [] \<and>
      (\<forall>msg. errp = JsError (Inr msg) \<longrightarrow>
         snd (handleConvert_plain lib sp) = Inr () \<and>
         error (after_plain lib sp) = ''Conversion error: '' @ msg) \<and>
      (\<forall>str. errp = JsValue (Inr str) \<longrightarrow>
         snd (handleConvert_plain lib sp) = Inr () \<and>
         error (after_plain lib sp) = ''Conversion error: '' @ str)) \<and>
   (trim (input ss) \<noteq> [] \<and>
    (getClient_styled lib (inputFormat ss) = Inl errs \<or>
     getClient_styled lib (inputFormat ss) = Inr ics \<and>
     (getClient_styled lib (outputFormat ss) = Inl errs \<or>
      getClient_styled lib (outputFormat ss) = Inr ocs \<and>
      (parse_step lib ics ss = Inl errs \<or>
       parse_step lib ics ss = Inr prs \<and> results prs = [] \<and>
       (transform lib ocs (baseUnit prs) Compatibility = Inl errs \<or>
        transform lib ocs (baseUnit prs) Compatibility = Inr trs \<and>
        render lib ocs (baseUnit trs) (mimeType_styled (outputFormat ss)) = Inl errs)))) \<longrightarrow>
      \<not> loading (after_styled lib ss) \<and> output' (after_styled lib ss) = [] \<and>
      (\<forall>msg. errs = JsError (Inr msg) \<longrightarrow>
         snd (handleConvert_styled lib ss) = Inr () \<and>
         error (after_styled lib ss) = ''Conversion error: '' @ msg) \<and>
      (\<forall>str. errs = JsValue (Inr str) \<longrightarrow>
         snd (handleConvert_styled lib ss) = Inr () \<and>
         error (after_styled lib ss) = ''Conversion error: '' @ str))"
proof (intro conjI)
  show "trim (input sp) \<noteq> [] \<and>
    (getClient_plain lib (inputFormat sp) = Inl errp \<or>
     getClient_plain lib (inputFormat sp) = Inr icp \<and>
     (getClient_plain lib (outputFormat sp) = Inl errp \<or>
      getClient_plain lib (outputFormat sp) = Inr ocp \<and>
      (parse_step lib icp sp = Inl errp \<or>
       parse_step lib icp sp = Inr prp \<and> results prp = [] \<and>
       (transform lib ocp (baseUnit prp) Compatibility = Inl errp \<or>
        transform lib ocp (baseUnit prp) Compatibility = Inr trp \<and>
        render lib ocp (baseUnit trp) (mimeType_plain (outputFormat sp)) = Inl errp)))) \<longrightarrow>
      \<not> loading (after_plain lib sp) \<and> output' (after_plain lib sp) = [] \<and>
      (\<forall>msg. errp = JsError (Inr msg) \<longrightarrow>
         snd (handleConvert_plain lib sp) = Inr () \<and>
         error (after_plain lib sp) = ''Conversion error: '' @ msg) \<and>
      (\<forall>str. errp = JsValue (Inr str) \<longrightarrow>
         snd (handleConvert_plain lib sp) = Inr () \<and>
         error (after_plain lib sp) = ''Conversion error: '' @ str)"
  proof (rule impI, erule conjE)
    assume ne: "trim (input sp) \<noteq> []" and stage:
      "(getClient_plain lib (inputFormat sp) = Inl errp \<or>
        getClient_plain lib (inputFormat sp) = Inr icp \<and>
        (getClient_plain lib (outputFormat sp) = Inl errp \<or>
         getClient_plain lib (outputFormat sp) = Inr ocp \<and>
         (parse_step lib icp sp = Inl errp \<or>
          parse_step lib icp sp = Inr prp \<and> results prp = [] \<and>
          (transform lib ocp (baseUnit prp) Compatibility = Inl errp \<or>
           transform lib ocp (baseUnit prp) Compatibility = Inr trp \<and>
           render lib ocp (baseUnit trp) (mimeType_plain (outputFormat sp)) = Inl errp))))"
    from plain_thrown [OF ne stage] show
      "\<not> loading (after_plain lib sp) \<and> output' (after_plain lib sp) = [] \<and>
       (\<forall>msg. errp = JsError (Inr msg) \<longrightarrow>
          snd (handleConvert_plain lib sp) = Inr () \<and>
          error (after_plain lib sp) = ''Conversion error: '' @ msg) \<and>
       (\<forall>str. errp = JsValue (Inr str) \<longrightarrow>
          snd (handleConvert_plain lib sp) = Inr () \<and>
          error (after_plain lib sp) = ''Conversion error: '' @ str)"
      by (auto simp add: catch_outcome_def)
  qed
  show "trim (input ss) \<noteq> [] \<and>
    (getClient_styled lib (inputFormat ss) = Inl errs \<or>
     getClient_styled lib (inputFormat ss) = Inr ics \<and>
     (getClient_styled lib (outputFormat ss) = Inl errs \<or>
      getClient_styled lib (outputFormat ss) = Inr ocs \<and>
      (parse_step lib ics ss = Inl errs \<or>
       parse_step lib ics ss = Inr prs \<and> results prs = [] \<and>
       (transform lib ocs (baseUnit prs) Compatibility = Inl errs \<or>
        transform lib ocs (baseUnit prs) Compatibility = Inr trs \<and>
        render lib ocs (baseUnit trs) (mimeType_styled (outputFormat ss)) = Inl errs)))) \<longrightarrow>
      \<not> loading (after_styled lib ss) \<and> output' (after_styled lib ss) = [] \<and>
      (\<forall>msg. errs = JsError (Inr msg) \<longrightarrow>
         snd (handleConvert_styled lib ss) = Inr () \<and>
         error (after_styled lib ss) = ''Conversion error: '' @ msg) \<and>
      (\<forall>str. errs = JsValue (Inr str) \<longrightarrow>
         snd (handleConvert_styled lib ss) = Inr () \<and>
         error (after_styled lib ss) = ''Conversion error: '' @ str)"
  proof (rule impI, erule conjE)
    assume ne: "trim (input ss) \<noteq> []" and stage:
      "(getClient_styled lib (inputFormat ss) = Inl errs \<or>
        getClient_styled lib (inputFormat ss) = Inr ics \<and>
        (getClient_styled lib (outputFormat ss) = Inl errs \<or>
         getClient_styled lib (outputFormat ss) = Inr ocs \<and>
         (parse_step lib ics ss = Inl errs \<or>
          parse_step lib ics ss = Inr prs \<and> results prs = [] \<and>
          (transform lib ocs (baseUnit prs) Compatibility = Inl errs \<or>
           transform lib ocs (baseUnit prs) Compatibility = Inr trs \<and>
           render lib ocs (baseUnit trs) (mimeType_styled (outputFormat ss)) = Inl errs))))"
    from styled_thrown [OF ne stage] show
      "\<not> loading (after_styled lib ss) \<and> output' (after_styled lib ss) = [] \<and>
       (\<forall>msg. errs = JsError (Inr msg) \<longrightarrow>
          snd (handleConvert_styled lib ss) = Inr () \<and>
          error (after_styled lib ss) = ''Conversion error: '' @ msg) \<and>
       (\<forall>str. errs = JsValue (Inr str) \<longrightarrow>
          snd (handleConvert_styled lib ss) = Inr () \<and>
          error (after_styled lib ss) = ''Conversion error: '' @ str)"
      by (auto simp add: catch_outcome_def)
  qed
qed

theorem exceptions_caught_witness:
  "parse_step sample_amf OAS20 (sample_plain Url ''http://x'' ''old'' []) =
     Inl (JsError (Inr ''Failed to fetch'')) \<and>
   snd (handleConvert_plain sample_amf (sample_plain Url ''http://x'' ''old'' [])) = Inr () \<and>
   error (after_plain sample_amf (sample_plain Url ''http://x'' ''old'' [])) =
     ''Conversion error: Failed to fetch'' \<and>
   output' (after_plain sample_amf (sample_plain Url ''http://x'' ''old'' [])) = [] \<and>
   parse_step sample_amf RAML08 (sample_styled Url ''file:///x'' ''old'' []) =
     Inl (JsValue (Inr ''file access denied'')) \<and>
   snd (handleConvert_styled sample_amf (sample_styled Url ''file:///x'' ''old'' [])) = Inr () \<and>
   error (after_styled sample_amf (sample_styled Url ''file:///x'' ''old'' [])) =
     ''Conversion error: file access denied'' \<and>
   error (after_plain sample_amf (sample_plain Url ''file:///x'' ''old'' [])) =
     ''Conversion error: file access denied'' \<and>
   error (after_styled sample_amf (sample_styled Url ''http://x'' ''old'' [])) =
     ''Conversion error: Failed to fetch''"
  using exceptions_caught [where lib = sample_amf
      and sp = "sample_plain Url ''http://x'' ''old'' []"
      and errp = "JsError (Inr ''Failed to fetch'')" and icp = OAS20 and ocp = RAML10
      and ss = "sample_styled Url ''file:///x'' ''old'' []"
      and errs = "JsValue (Inr ''file access denied'')" and ics = RAML08 and ocs = OAS30]
    exceptions_caught [where lib = sample_amf
      and sp = "sample_plain Url ''file:///x'' ''old'' []"
      and errp = "JsValue (Inr ''file access denied'')" and icp = OAS20 and ocp = RAML10
      and ss = "sample_styled Url ''http://x'' ''old'' []"
      and errs = "JsError (Inr ''Failed to fetch'')" and ics = RAML08 and ocs = OAS30]
  by (simp add: sample_defs)

text \<open>
  C9. When an attempt succeeds (both clients are created, the parse step returns no
  diagnostics, the transformation and the rendering return), the error is the empty string
  afterwards, whatever it was before, and the output is the rendered text.
\<close>

theorem success_clears_error:
  "(trim (input sp) \<noteq> [] \<and>
    getClient_plain lib (inputFormat sp) = Inr icp \<and>
    getClient_plain lib (outputFormat sp) = Inr ocp \<and>
    parse_step lib icp sp = Inr prp \<and> results prp = [] \<and>
    transform lib ocp (baseUnit prp) Compatibility = Inr trp \<and>
    render lib ocp (baseUnit trp) (mimeType_plain (outputFormat sp)) = Inr rendered_p \<longrightarrow>
      error (after_plain lib sp) = [] \<and> output' (after_plain lib sp) = rendered_p \<and>
      \<not> loading (after_plain lib sp)) \<and>
   (trim (input ss) \<noteq> [] \<and>
    getClient_styled lib (inputFormat ss) = Inr ics \<and>
    getClient_styled lib (outputFormat ss) = Inr ocs \<and>
    parse_step lib ics ss = Inr prs \<and> results prs = [] \<and>
    transform lib ocs (baseUnit prs) Compatibility = Inr trs \<and>
    render lib ocs (baseUnit trs) (mimeType_styled (outputFormat ss)) = Inr rendered_s \<longrightarrow>
      error (after_styled lib ss) = [] \<and> output' (after_styled lib ss) = rendered_s \<and>
      \<not> loading (after_styled lib ss))"
proof (intro conjI impI; elim conjE)
  assume h: "trim (input sp) \<noteq> []" "getClient_plain lib (inputFormat sp) = Inr icp"
    "getClient_plain lib (outputFormat sp) = Inr ocp" "parse_step lib icp sp = Inr prp"
    "results prp = []" "transform lib ocp (baseUnit prp) Compatibility = Inr trp"
    "render lib ocp (baseUnit trp) (mimeType_plain (outputFormat sp)) = Inr rendered_p"
  note tr = plain_rendered [OF h]
  show "error (after_plain lib sp) = []"
    by (simp add: after_plain_def tr run_effects_simps)
  show "output' (after_plain lib sp) = rendered_p"
    by (simp add: after_plain_def tr run_effects_simps)
  show "\<not> loading (after_plain lib sp)"
    by (simp add: after_plain_def tr run_effects_simps)
next
  assume h: "trim (input ss) \<noteq> []" "getClient_styled lib (inputFormat ss) = Inr ics"
    "getClient_styled lib (outputFormat ss) = Inr ocs" "parse_step lib ics ss = Inr prs"
    "results prs = []" "transform lib ocs (baseUnit prs) Compatibility = Inr trs"
    "render lib ocs (baseUnit trs) (mimeType_styled (outputFormat ss)) = Inr rendered_s"
  note tr = styled_rendered [OF h]
  show "error (after_styled lib ss) = []"
    by (simp add: after_styled_def tr run_effects_simps)
  show "output' (after_styled lib ss) = rendered_s"
    by (simp add: after_styled_def tr run_effects_simps)
  show "\<not> loading (after_styled lib ss)"
    by (simp add: after_styled_def tr run_effects_simps)
qed

theorem success_clears_error_witness:
  "error (sample_plain Content ''#%RAML'' [] ''Please provide input'') \<noteq> [] \<and>
   error (after_plain sample_amf (sample_plain Content ''#%RAML'' [] ''Please provide input''))
     = [] \<and>
   output' (after_plain sample_amf (sample_plain Content ''#%RAML'' [] ''Please provide input''))
     = ''application/yaml #%RAML'' \<and>
   error (after_styled sample_amf (sample_styled Content ''#%RAML'' [] ''Please provide input''))
     = [] \<and>
   output' (after_styled sample_amf (sample_styled Content ''#%RAML'' [] ''Please provide input''))
     = ''application/json #%RAML''"
  using success_clears_error [of "sample_plain Content ''#%RAML'' [] ''Please provide input''"
      sample_amf OAS20 RAML10 "\<lparr>baseUnit = ''#%RAML'', results = []\<rparr>"
      "\<lparr>baseUnit = ''#%RAML'', results = [\<lparr>message = ''Lossy conversion''\<rparr>]\<rparr>"
      "''application/yaml #%RAML''"
      "sample_styled Content ''#%RAML'' [] ''Please provide input''" RAML08 OAS30
      "\<lparr>baseUnit = ''#%RAML'', results = []\<rparr>"
      "\<lparr>baseUnit = ''#%RAML'', results = [\<lparr>message = ''Lossy conversion''\<rparr>]\<rparr>"
      "''application/json #%RAML''"]
  by (simp add: sample_defs)

lemma mimeType_plain_cases:
  "mimeType_plain P_RAML_1_0 = ''application/yaml''"
  "mimeType_plain P_OAS_2_0 = ''application/json''"
  "mimeType_plain P_OAS_3_0 = ''application/json''"
  by (simp_all add: mimeType_plain_def startsWith_def)

lemma mimeType_styled_cases:
  "mimeType_styled RAML_0_8 = ''application/yaml''"
  "mimeType_styled RAML_1_0 = ''application/yaml''"
  "mimeType_styled OAS_2_0 = ''application/json''"
  "mimeType_styled OAS_3_0 = ''application/json''"
  by (simp_all add: mimeType_styled_def startsWith_def)

lemma parse_call_not_Render [simp]:
  "parse_call client s \<noteq> Render c u m" "Render c u m \<noteq> parse_call client s"
  by (cases "inputMode s"; simp add: parse_call_def)+

lemma plain_render_calls:
  "Render c u m \<in> set (fst (handleConvert_plain lib s)) \<Longrightarrow> m = mimeType_plain (outputFormat s)"
proof (cases rule: plain_paths [where s = s and lib = lib])
  case guard
  then show "Render c u m \<in> set (fst (handleConvert_plain lib s)) \<Longrightarrow> ?thesis"
    by (simp add: handleConvert_plain_guard)
next
  case (input_client err)
  then show "Render c u m \<in> set (fst (handleConvert_plain lib s)) \<Longrightarrow> ?thesis"
    by (simp add: plain_input_client_throws)
next
  case (output_client ic err)
  from plain_output_client_throws [OF this]
  show "Render c u m \<in> set (fst (handleConvert_plain lib s)) \<Longrightarrow> ?thesis"
    by simp
next
  case (parse_throws ic oc err)
  from plain_parse_throws [OF this]
  show "Render c u m \<in> set (fst (handleConvert_plain lib s)) \<Longrightarrow> ?thesis"
    by simp
next
  case (parse_diagnostics ic oc pr)
  from plain_parse_diagnostics [OF this]
  show "Render c u m \<in> set (fst (handleConvert_plain lib s)) \<Longrightarrow> ?thesis"
    by simp
next
  case (transform_throws ic oc pr err)
  from plain_transform_throws [OF this]
  show "Render c u m \<in> set (fst (handleConvert_plain lib s)) \<Longrightarrow> ?thesis"
    by simp
next
  case (render_throws ic oc pr tr err)
  from plain_render_throws [OF this]
  show "Render c u m \<in> set (fst (handleConvert_plain lib s)) \<Longrightarrow> ?thesis"
    by (simp split: if_splits)
next
  case (rendered ic oc pr tr rendered)
  from plain_rendered [OF this]
  show "Render c u m \<in> set (fst (handleConvert_plain lib s)) \<Longrightarrow> ?thesis"
    by (simp split: if_splits)
qed

lemma styled_render_calls:
  "Render c u m \<in> set (fst (handleConvert_styled lib s)) \<Longrightarrow> m = mimeType_styled (outputFormat s)"
proof (cases rule: styled_paths [where s = s and lib = lib])
  case guard
  then show "Render c u m \<in> set (fst (handleConvert_styled lib s)) \<Longrightarrow> ?thesis"
    by (simp add: handleConvert_styled_guard)
next
  case (input_client err)
  then show "Render c u m \<in> set (fst (handleConvert_styled lib s)) \<Longrightarrow> ?thesis"
    by (simp add: styled_input_client_throws)
next
  case (output_client ic err)
  from styled_output_client_throws [OF this]
  show "Render c u m \<in> set (fst (handleConvert_styled lib s)) \<Longrightarrow> ?thesis"
    by simp
next
  case (parse_throws ic oc err)
  from styled_parse_throws [OF this]
  show "Render c u m \<in> set (fst (handleConvert_styled lib s)) \<Longrightarrow> ?thesis"
    by simp
next
  case (parse_diagnostics ic oc pr)
  from styled_parse_diagnostics [OF this]
  show "Render c u m \<in> set (fst (handleConvert_styled lib s)) \<Longrightarrow> ?thesis"
    by simp
next
  case (transform_throws ic oc pr err)
  from styled_transform_throws [OF this]
  show "Render c u m \<in> set (fst (handleConvert_styled lib s)) \<Longrightarrow> ?thesis"
    by simp
next
  case (render_throws ic oc pr tr err)
  from styled_render_throws [OF this]
  show "Render c u m \<in> set (fst (handleConvert_styled lib s)) \<Longrightarrow> ?thesis"
    by (simp split: if_splits)
next
  case (rendered ic oc pr tr rendered)
  from styled_rendered [OF this]
  show "Render c u m \<in> set (fst (handleConvert_styled lib s)) \<Longrightarrow> ?thesis"
    by (simp split: if_splits)
qed

text \<open>
  C6. The media type handed to \<open>render\<close> is \<open>application/yaml\<close> exactly for the RAML
  output formats and \<open>application/json\<close> exactly for the OAS ones; every render call of
  an invocation carries that media type, and a successful conversion makes that call and
  puts its result in the output.
\<close>

theorem render_media_type:
  "(mimeType_plain fp = ''application/yaml'' \<longleftrightarrow> fp = P_RAML_1_0) \<and>
   (mimeType_plain fp = ''application/json'' \<longleftrightarrow> fp = P_OAS_2_0 \<or> fp = P_OAS_3_0) \<and>
   (\<forall>c u m. Render c u m \<in> set (fst (handleConvert_plain lib sp)) \<longrightarrow>
      m = mimeType_plain (outputFormat sp)) \<and>
   (trim (input sp) \<noteq> [] \<and>
    getClient_plain lib (inputFormat sp) = Inr icp \<and>
    getClient_plain lib (outputFormat sp) = Inr ocp \<and>
    parse_step lib icp sp = Inr prp \<and> results prp = [] \<and>
    transform lib ocp (baseUnit prp) Compatibility = Inr trp \<and>
    render lib ocp (baseUnit trp) (mimeType_plain (outputFormat sp)) = Inr rendered_p \<longrightarrow>
      Render ocp (baseUnit trp) (mimeType_plain (outputFormat sp))
        \<in> set (fst (handleConvert_plain lib sp)) \<and>
      output' (after_plain lib sp) = rendered_p) \<and>
   (mimeType_styled fs = ''application/yaml'' \<longleftrightarrow> fs = RAML_0_8 \<or> fs = RAML_1_0) \<and>
   (mimeType_styled fs = ''application/json'' \<longleftrightarrow> fs = OAS_2_0 \<or> fs = OAS_3_0) \<and>
   (\<forall>c u m. Render c u m \<in> set (fst (handleConvert_styled lib ss)) \<longrightarrow>
      m = mimeType_styled (outputFormat ss)) \<and>
   (trim (input ss) \<noteq> [] \<and>
    getClient_styled lib (inputFormat ss) = Inr ics \<and>
    getClient_styled lib (outputFormat ss) = Inr ocs \<and>
    parse_step lib ics ss = Inr prs \<and> results prs = [] \<and>
    transform lib ocs (baseUnit prs) Compatibility = Inr trs \<and>
    render lib ocs (baseUnit trs) (mimeType_styled (outputFormat ss)) = Inr rendered_s \<longrightarrow>
      Render ocs (baseUnit trs) (mimeType_styled (outputFormat ss))
        \<in> set (fst (handleConvert_styled lib ss)) \<and>
      output' (after_styled lib ss) = rendered_s)"
proof (intro conjI)
  show "mimeType_plain fp = ''application/yaml'' \<longleftrightarrow> fp = P_RAML_1_0"
    by (cases fp) (simp_all add: mimeType_plain_cases)
  show "mimeType_plain fp = ''application/json'' \<longleftrightarrow> fp = P_OAS_2_0 \<or> fp = P_OAS_3_0"
    by (cases fp) (simp_all add: mimeType_plain_cases)
  show "mimeType_styled fs = ''application/yaml'' \<longleftrightarrow> fs = RAML_0_8 \<or> fs = RAML_1_0"
    by (cases fs) (simp_all add: mimeType_styled_cases)
  show "mimeType_styled fs = ''application/json'' \<longleftrightarrow> fs = OAS_2_0 \<or> fs = OAS_3_0"
    by (cases fs) (simp_all add: mimeType_styled_cases)
  show "\<forall>c u m. Render c u m \<in> set (fst (handleConvert_plain lib sp)) \<longrightarrow>
      m = mimeType_plain (outputFormat sp)"
    by (intro allI impI) (rule plain_render_calls)
  show "\<forall>c u m. Render c u m \<in> set (fst (handleConvert_styled lib ss)) \<longrightarrow>
      m = mimeType_styled (outputFormat ss)"
    by (intro allI impI) (rule styled_render_calls)
  show "trim (input sp) \<noteq> [] \<and>
    getClient_plain lib (inputFormat sp) = Inr icp \<and>
    getClient_plain lib (outputFormat sp) = Inr ocp \<and>
    parse_step lib icp sp = Inr prp \<and> results prp = [] \<and>
    transform lib ocp (baseUnit prp) Compatibility = Inr trp \<and>
    render lib ocp (baseUnit trp) (mimeType_plain (outputFormat sp)) = Inr rendered_p \<longrightarrow>
      Render ocp (baseUnit trp) (mimeType_plain (outputFormat sp))
        \<in> set (fst (handleConvert_plain lib sp)) \<and>
      output' (after_plain lib sp) = rendered_p"
  proof (intro impI; elim conjE)
    assume h: "trim (input sp) \<noteq> []" "getClient_plain lib (inputFormat sp) = Inr icp"
      "getClient_plain lib (outputFormat sp) = Inr ocp" "parse_step lib icp sp = Inr prp"
      "results prp = []" "transform lib ocp (baseUnit prp) Compatibility = Inr trp"
      "render lib ocp (baseUnit trp) (mimeType_plain (outputFormat sp)) = Inr rendered_p"
    show "Render ocp (baseUnit trp) (mimeType_plain (outputFormat sp))
        \<in> set (fst (handleConvert_plain lib sp)) \<and>
      output' (after_plain lib sp) = rendered_p"
      by (simp add: after_plain_def plain_rendered [OF h] run_effects_simps)
  qed
  show "trim (input ss) \<noteq> [] \<and>
    getClient_styled lib (inputFormat ss) = Inr ics \<and>
    getClient_styled lib (outputFormat ss) = Inr ocs \<and>
    parse_step lib ics ss = Inr prs \<and> results prs = [] \<and>
    transform lib ocs (baseUnit prs) Compatibility = Inr trs \<and>
    render lib ocs (baseUnit trs) (mimeType_styled (outputFormat ss)) = Inr rendered_s \<longrightarrow>
      Render ocs (baseUnit trs) (mimeType_styled (outputFormat ss))
        \<in> set (fst (handleConvert_styled lib ss)) \<and>
      output' (after_styled lib ss) = rendered_s"
  proof (intro impI; elim conjE)
    assume h: "trim (input ss) \<noteq> []" "getClient_styled lib (inputFormat ss) = Inr ics"
      "getClient_styled lib (outputFormat ss) = Inr ocs" "parse_step lib ics ss = Inr prs"
      "results prs = []" "transform lib ocs (baseUnit prs) Compatibility = Inr trs"
      "render lib ocs (baseUnit trs) (mimeType_styled (outputFormat ss)) = Inr rendered_s"
    show "Render ocs (baseUnit trs) (mimeType_styled (outputFormat ss))
        \<in> set (fst (handleConvert_styled lib ss)) \<and>
      output' (after_styled lib ss) = rendered_s"
      by (simp add: after_styled_def styled_rendered [OF h] run_effects_simps)
  qed
qed

theorem render_media_type_witness:
  "Render RAML10 ''#%RAML'' ''application/yaml''
     \<in> set (fst (handleConvert_plain sample_amf (sample_plain Content ''#%RAML'' [] []))) \<and>
   output' (after_plain sample_amf (sample_plain Content ''#%RAML'' [] [])) =
     ''application/yaml #%RAML'' \<and>
   Render OAS30 ''#%RAML'' ''application/json''
     \<in> set (fst (handleConvert_styled sample_amf (sample_styled Content ''#%RAML'' [] []))) \<and>
   output' (after_styled sample_amf (sample_styled Content ''#%RAML'' [] [])) =
     ''application/json #%RAML''"
  using render_media_type [of P_RAML_1_0 sample_amf "sample_plain Content ''#%RAML'' [] []"
      OAS20 RAML10 "\<lparr>baseUnit = ''#%RAML'', results = []\<rparr>"
      "\<lparr>baseUnit = ''#%RAML'', results = [\<lparr>message = ''Lossy conversion''\<rparr>]\<rparr>"
      "''application/yaml #%RAML''" OAS_3_0
      "sample_styled Content ''#%RAML'' [] []" RAML08 OAS30
      "\<lparr>baseUnit = ''#%RAML'', results = []\<rparr>"
      "\<lparr>baseUnit = ''#%RAML'', results = [\<lparr>message = ''Lossy conversion''\<rparr>]\<rparr>"
      "''application/json #%RAML''"]
  by (simp add: sample_defs)

lemma parse_call_eq_ParseContent [simp]:
  "parse_call client s = ParseContent c i m \<longleftrightarrow>
     inputMode s = Content \<and> c = client \<and> i = input s \<and> m = ''application/yaml''"
  "ParseContent c i m = parse_call client s \<longleftrightarrow>
     inputMode s = Content \<and> c = client \<and> i = input s \<and> m = ''application/yaml''"
  by (cases "inputMode s"; auto simp add: parse_call_def)+

lemma parse_call_eq_ParseDocument [simp]:
  "parse_call client s = ParseDocument c i \<longleftrightarrow> inputMode s = Url \<and> c = client \<and> i = input s"
  "ParseDocument c i = parse_call client s \<longleftrightarrow> inputMode s = Url \<and> c = client \<and> i = input s"
  by (cases "inputMode s"; auto simp add: parse_call_def)+

lemma plain_parse_calls:
  "ParseContent c i m \<in> set (fst (handleConvert_plain lib s)) \<Longrightarrow>
     m = ''application/yaml'' \<and> i = input s"
  "ParseDocument c i \<in> set (fst (handleConvert_plain lib s)) \<Longrightarrow> inputMode s = Url"
proof (atomize (full), cases rule: plain_paths [where s = s and lib = lib])
  case guard
  then show "(ParseContent c i m \<in> set (fst (handleConvert_plain lib s)) \<longrightarrow>
     m = ''application/yaml'' \<and> i = input s) \<and>
    (ParseDocument c i \<in> set (fst (handleConvert_plain lib s)) \<longrightarrow> inputMode s = Url)"
    by (simp add: handleConvert_plain_guard)
next
  case (input_client err)
  from plain_input_client_throws [OF this]
  show "(ParseContent c i m \<in> set (fst (handleConvert_plain lib s)) \<longrightarrow>
     m = ''application/yaml'' \<and> i = input s) \<and>
    (ParseDocument c i \<in> set (fst (handleConvert_plain lib s)) \<longrightarrow> inputMode s = Url)"
    by simp
next
  case (output_client ic err)
  from plain_output_client_throws [OF this]
  show "(ParseContent c i m \<in> set (fst (handleConvert_plain lib s)) \<longrightarrow>
     m = ''application/yaml'' \<and> i = input s) \<and>
    (ParseDocument c i \<in> set (fst (handleConvert_plain lib s)) \<longrightarrow> inputMode s = Url)"
    by simp
next
  case (parse_throws ic oc err)
  from plain_parse_throws [OF this]
  show "(ParseContent c i m \<in> set (fst (handleConvert_plain lib s)) \<longrightarrow>
     m = ''application/yaml'' \<and> i = input s) \<and>
    (ParseDocument c i \<in> set (fst (handleConvert_plain lib s)) \<longrightarrow> inputMode s = Url)"
    by simp
next
  case (parse_diagnostics ic oc pr)
  from plain_parse_diagnostics [OF this]
  show "(ParseContent c i m \<in> set (fst (handleConvert_plain lib s)) \<longrightarrow>
     m = ''application/yaml'' \<and> i = input s) \<and>
    (ParseDocument c i \<in> set (fst (handleConvert_plain lib s)) \<longrightarrow> inputMode s = Url)"
    by simp
next
  case (transform_throws ic oc pr err)
  from plain_transform_throws [OF this]
  show "(ParseContent c i m \<in> set (fst (handleConvert_plain lib s)) \<longrightarrow>
     m = ''application/yaml'' \<and> i = input s) \<and>
    (ParseDocument c i \<in> set (fst (handleConvert_plain lib s)) \<longrightarrow> inputMode s = Url)"
    by simp
next
  case (render_throws ic oc pr tr err)
  from plain_render_throws [OF this]
  show "(ParseContent c i m \<in> set (fst (handleConvert_plain lib s)) \<longrightarrow>
     m = ''application/yaml'' \<and> i = input s) \<and>
    (ParseDocument c i \<in> set (fst (handleConvert_plain lib s)) \<longrightarrow> inputMode s = Url)"
    by (simp split: if_splits)
next
  case (rendered ic oc pr tr rendered)
  from plain_rendered [OF this]
  show "(ParseContent c i m \<in> set (fst (handleConvert_plain lib s)) \<longrightarrow>
     m = ''application/yaml'' \<and> i = input s) \<and>
    (ParseDocument c i \<in> set (fst (handleConvert_plain lib s)) \<longrightarrow> inputMode s = Url)"
    by (simp split: if_splits)
qed

lemma plain_parse_call_made:
  "trim (input s) \<noteq> [] \<Longrightarrow> getClient_plain lib (inputFormat s) = Inr ic \<Longrightarrow>
   getClient_plain lib (outputFormat s) = Inr oc \<Longrightarrow>
   parse_call ic s \<in> set (fst (handleConvert_plain lib s))"
proof (cases rule: plain_paths [where s = s and lib = lib])
  case (parse_throws ic' oc' err)
  from plain_parse_throws [OF this] parse_throws
  show "getClient_plain lib (inputFormat s) = Inr ic \<Longrightarrow> ?thesis"
    by simp
next
  case (parse_diagnostics ic' oc' pr)
  from plain_parse_diagnostics [OF this] parse_diagnostics
  show "getClient_plain lib (inputFormat s) = Inr ic \<Longrightarrow> ?thesis"
    by simp
next
  case (transform_throws ic' oc' pr err)
  from plain_transform_throws [OF this] transform_throws
  show "getClient_plain lib (inputFormat s) = Inr ic \<Longrightarrow> ?thesis"
    by simp
next
  case (render_throws ic' oc' pr tr err)
  from plain_render_throws [OF this] render_throws
  show "getClient_plain lib (inputFormat s) = Inr ic \<Longrightarrow> ?thesis"
    by simp
next
  case (rendered ic' oc' pr tr rendered)
  from plain_rendered [OF this] rendered
  show "getClient_plain lib (inputFormat s) = Inr ic \<Longrightarrow> ?thesis"
    by simp
qed simp_all

lemma styled_parse_calls:
  "ParseContent c i m \<in> set (fst (handleConvert_styled lib s)) \<Longrightarrow>
     m = ''application/yaml'' \<and> i = input s"
  "ParseDocument c i \<in> set (fst (handleConvert_styled lib s)) \<Longrightarrow> inputMode s = Url"
proof (atomize (full), cases rule: styled_paths [where s = s and lib = lib])
  case guard
  then show "(ParseContent c i m \<in> set (fst (handleConvert_styled lib s)) \<longrightarrow>
     m = ''application/yaml'' \<and> i = input s) \<and>
    (ParseDocument c i \<in> set (fst (handleConvert_styled lib s)) \<longrightarrow> inputMode s = Url)"
    by (simp add: handleConvert_styled_guard)
next
  case (input_client err)
  from styled_input_client_throws [OF this]
  show "(ParseContent c i m \<in> set (fst (handleConvert_styled lib s)) \<longrightarrow>
     m = ''application/yaml'' \<and> i = input s) \<and>
    (ParseDocument c i \<in> set (fst (handleConvert_styled lib s)) \<longrightarrow> inputMode s = Url)"
    by simp
next
  case (output_client ic err)
  from styled_output_client_throws [OF this]
  show "(ParseContent c i m \<in> set (fst (handleConvert_styled lib s)) \<longrightarrow>
     m = ''application/yaml'' \<and> i = input s) \<and>
    (ParseDocument c i \<in> set (fst (handleConvert_styled lib s)) \<longrightarrow> inputMode s = Url)"
    by simp
next
  case (parse_throws ic oc err)
  from styled_parse_throws [OF this]
  show "(ParseContent c i m \<in> set (fst (handleConvert_styled lib s)) \<longrightarrow>
     m = ''application/yaml'' \<and> i = input s) \<and>
    (ParseDocument c i \<in> set (fst (handleConvert_styled lib s)) \<longrightarrow> inputMode s = Url)"
    by simp
next
  case (parse_diagnostics ic oc pr)
  from styled_parse_diagnostics [OF this]
  show "(ParseContent c i m \<in> set (fst (handleConvert_styled lib s)) \<longrightarrow>
     m = ''application/yaml'' \<and> i = input s) \<and>
    (ParseDocument c i \<in> set (fst (handleConvert_styled lib s)) \<longrightarrow> inputMode s = Url)"
    by simp
next
  case (transform_throws ic oc pr err)
  from styled_transform_throws [OF this]
  show "(ParseContent c i m \<in> set (fst (handleConvert_styled lib s)) \<longrightarrow>
     m = ''application/yaml'' \<and> i = input s) \<and>
    (ParseDocument c i \<in> set (fst (handleConvert_styled lib s)) \<longrightarrow> inputMode s = Url)"
    by simp
next
  case (render_throws ic oc pr tr err)
  from styled_render_throws [OF this]
  show "(ParseContent c i m \<in> set (fst (handleConvert_styled lib s)) \<longrightarrow>
     m = ''application/yaml'' \<and> i = input s) \<and>
    (ParseDocument c i \<in> set (fst (handleConvert_styled lib s)) \<longrightarrow> inputMode s = Url)"
    by (simp split: if_splits)
next
  case (rendered ic oc pr tr rendered)
  from styled_rendered [OF this]
  show "(ParseContent c i m \<in> set (fst (handleConvert_styled lib s)) \<longrightarrow>
     m = ''application/yaml'' \<and> i = input s) \<and>
    (ParseDocument c i \<in> set (fst (handleConvert_styled lib s)) \<longrightarrow> inputMode s = Url)"
    by (simp split: if_splits)
qed

lemma styled_parse_call_made:
  "trim (input s) \<noteq> [] \<Longrightarrow> getClient_styled lib (inputFormat s) = Inr ic \<Longrightarrow>
   getClient_styled lib (outputFormat s) = Inr oc \<Longrightarrow>
   parse_call ic s \<in> set (fst (handleConvert_styled lib s))"
proof (cases rule: styled_paths [where s = s and lib = lib])
  case (parse_throws ic' oc' err)
  from styled_parse_throws [OF this] parse_throws
  show "getClient_styled lib (inputFormat s) = Inr ic \<Longrightarrow> ?thesis"
    by simp
next
  case (parse_diagnostics ic' oc' pr)
  from styled_parse_diagnostics [OF this] parse_diagnostics
  show "getClient_styled lib (inputFormat s) = Inr ic \<Longrightarrow> ?thesis"
    by simp
next
  case (transform_throws ic' oc' pr err)
  from styled_transform_throws [OF this] transform_throws
  show "getClient_styled lib (inputFormat s) = Inr ic \<Longrightarrow> ?thesis"
    by simp
next
  case (render_throws ic' oc' pr tr err)
  from styled_render_throws [OF this] render_throws
  show "getClient_styled lib (inputFormat s) = Inr ic \<Longrightarrow> ?thesis"
    by simp
next
  case (rendered ic' oc' pr tr rendered)
  from styled_rendered [OF this] rendered
  show "getClient_styled lib (inputFormat s) = Inr ic \<Longrightarrow> ?thesis"
    by simp
qed simp_all

text \<open>
  C10. Every \<open>parseContent\<close> call of an invocation passes the input text and the fixed
  media type \<open>application/yaml\<close>, whatever the input format and the content are; in
  content mode, once the guard is passed and both clients exist, that call is made on the
  input client and no \<open>parseDocument\<close> call is made.
\<close>

theorem content_mode_media_type:
  "(\<forall>c i m. ParseContent c i m \<in> set (fst (handleConvert_plain lib sp)) \<longrightarrow>
      m = ''application/yaml'' \<and> i = input sp) \<and>
   (inputMode sp = Content \<and> trim (input sp) \<noteq> [] \<and>
    getClient_plain lib (inputFormat sp) = Inr icp \<and>
    getClient_plain lib (outputFormat sp) = Inr ocp \<longrightarrow>
      ParseContent icp (input sp) ''application/yaml''
        \<in> set (fst (handleConvert_plain lib sp)) \<and>
      (\<forall>c i. ParseDocument c i \<notin> set (fst (handleConvert_plain lib sp)))) \<and>
   (\<forall>c i m. ParseContent c i m \<in> set (fst (handleConvert_styled lib ss)) \<longrightarrow>
      m = ''application/yaml'' \<and> i = input ss) \<and>
   (inputMode ss = Content \<and> trim (input ss) \<noteq> [] \<and>
    getClient_styled lib (inputFormat ss) = Inr ics \<and>
    getClient_styled lib (outputFormat ss) = Inr ocs \<longrightarrow>
      ParseContent ics (input ss) ''application/yaml''
        \<in> set (fst (handleConvert_styled lib ss)) \<and>
      (\<forall>c i. ParseDocument c i \<notin> set (fst (handleConvert_styled lib ss))))"
proof (intro conjI)
  show "\<forall>c i m. ParseContent c i m \<in> set (fst (handleConvert_plain lib sp)) \<longrightarrow>
      m = ''application/yaml'' \<and> i = input sp"
    by (intro allI impI) (rule plain_parse_calls)
  show "\<forall>c i m. ParseContent c i m \<in> set (fst (handleConvert_styled lib ss)) \<longrightarrow>
      m = ''application/yaml'' \<and> i = input ss"
    by (intro allI impI) (rule styled_parse_calls)
  show "inputMode sp = Content \<and> trim (input sp) \<noteq> [] \<and>
    getClient_plain lib (inputFormat sp) = Inr icp \<and>
    getClient_plain lib (outputFormat sp) = Inr ocp \<longrightarrow>
      ParseContent icp (input sp) ''application/yaml''
        \<in> set (fst (handleConvert_plain lib sp)) \<and>
      (\<forall>c i. ParseDocument c i \<notin> set (fst (handleConvert_plain lib sp)))"
  proof (intro impI; elim conjE)
    assume mode: "inputMode sp = Content" and h: "trim (input sp) \<noteq> []"
      "getClient_plain lib (inputFormat sp) = Inr icp"
      "getClient_plain lib (outputFormat sp) = Inr ocp"
    have made: "ParseContent icp (input sp) ''application/yaml''
        \<in> set (fst (handleConvert_plain lib sp))"
      using plain_parse_call_made [OF h] mode by (simp add: parse_call_def)
    have "ParseDocument c i \<notin> set (fst (handleConvert_plain lib sp))" for c i
      using plain_parse_calls(2) [of c i lib sp] mode by auto
    with made show "ParseContent icp (input sp) ''application/yaml''
        \<in> set (fst (handleConvert_plain lib sp)) \<and>
      (\<forall>c i. ParseDocument c i \<notin> set (fst (handleConvert_plain lib sp)))"
      by blast
  qed
  show "inputMode ss = Content \<and> trim (input ss) \<noteq> [] \<and>
    getClient_styled lib (inputFormat ss) = Inr ics \<and>
    getClient_styled lib (outputFormat ss) = Inr ocs \<longrightarrow>
      ParseContent ics (input ss) ''application/yaml''
        \<in> set (fst (handleConvert_styled lib ss)) \<and>
      (\<forall>c i. ParseDocument c i \<notin> set (fst (handleConvert_styled lib ss)))"
  proof (intro impI; elim conjE)
    assume mode: "inputMode ss = Content" and h: "trim (input ss) \<noteq> []"
      "getClient_styled lib (inputFormat ss) = Inr ics"
      "getClient_styled lib (outputFormat ss) = Inr ocs"
    have made: "ParseContent ics (input ss) ''application/yaml''
        \<in> set (fst (handleConvert_styled lib ss))"
      using styled_parse_call_made [OF h] mode by (simp add: parse_call_def)
    have "ParseDocument c i \<notin> set (fst (handleConvert_styled lib ss))" for c i
      using styled_parse_calls(2) [of c i lib ss] mode by auto
    with made show "ParseContent ics (input ss) ''application/yaml''
        \<in> set (fst (handleConvert_styled lib ss)) \<and>
      (\<forall>c i. ParseDocument c i \<notin> set (fst (handleConvert_styled lib ss)))"
      by blast
  qed
qed

theorem content_mode_media_type_witness:
  "inputMode (sample_plain Content ''{}'' [] []) = Content \<and>
   inputFormat (sample_plain Content ''{}'' [] []) = P_OAS_2_0 \<and>
   ParseContent OAS20 ''{}'' ''application/yaml''
     \<in> set (fst (handleConvert_plain sample_amf
          (sample_plain Content ''{}'' [] []))) \<and>
   ParseContent OAS30 ''[]'' ''application/yaml''
     \<in> set (fst (handleConvert_styled sample_amf
          ((sample_styled Content ''[]'' [] [])\<lparr>inputFormat := OAS_3_0\<rparr>)))"
  using content_mode_media_type [of sample_amf
      "sample_plain Content ''{}'' [] []" OAS20 RAML10
      "(sample_styled Content ''[]'' [] [])\<lparr>inputFormat := OAS_3_0\<rparr>"
      OAS30 OAS30]
  by (simp add: sample_defs)

lemma plain_exclusive:
  "trim (input s) \<noteq> [] \<Longrightarrow> output' (after_plain lib s) = [] \<or> error (after_plain lib s) = []"
proof (cases rule: plain_paths [where s = s and lib = lib])
  case (input_client err)
  from plain_input_client_throws [OF this] show ?thesis
    by (simp add: after_plain_def run_effects_simps)
next
  case (output_client ic err)
  from plain_output_client_throws [OF this] show ?thesis
    by (simp add: after_plain_def run_effects_simps)
next
  case (parse_throws ic oc err)
  from plain_parse_throws [OF this] show ?thesis
    by (simp add: after_plain_def run_effects_simps)
next
  case (parse_diagnostics ic oc pr)
  from plain_parse_diagnostics [OF this] show ?thesis
    by (simp add: after_plain_def run_effects_simps)
next
  case (transform_throws ic oc pr err)
  from plain_transform_throws [OF this] show ?thesis
    by (simp add: after_plain_def run_effects_simps)
next
  case (render_throws ic oc pr tr err)
  from plain_render_throws [OF this] show ?thesis
    by (simp add: after_plain_def run_effects_simps)
next
  case (rendered ic oc pr tr rendered)
  from plain_rendered [OF this] show ?thesis
    by (simp add: after_plain_def run_effects_simps)
qed simp

lemma styled_exclusive:
  "trim (input s) \<noteq> [] \<Longrightarrow> output' (after_styled lib s) = [] \<or> error (after_styled lib s) = []"
proof (cases rule: styled_paths [where s = s and lib = lib])
  case (input_client err)
  from styled_input_client_throws [OF this] show ?thesis
    by (simp add: after_styled_def run_effects_simps)
next
  case (output_client ic err)
  from styled_output_client_throws [OF this] show ?thesis
    by (simp add: after_styled_def run_effects_simps)
next
  case (parse_throws ic oc err)
  from styled_parse_throws [OF this] show ?thesis
    by (simp add: after_styled_def run_effects_simps)
next
  case (parse_diagnostics ic oc pr)
  from styled_parse_diagnostics [OF this] show ?thesis
    by (simp add: after_styled_def run_effects_simps)
next
  case (transform_throws ic oc pr err)
  from styled_transform_throws [OF this] show ?thesis
    by (simp add: after_styled_def run_effects_simps)
next
  case (render_throws ic oc pr tr err)
  from styled_render_throws [OF this] show ?thesis
    by (simp add: after_styled_def run_effects_simps)
next
  case (rendered ic oc pr tr rendered)
  from styled_rendered [OF this] show ?thesis
    by (simp add: after_styled_def run_effects_simps)
qed simp

theorem output_error_exclusive_counterexample:
  "output' (after_plain sample_amf (sample_plain Content [] ''swagger: 2.0'' [])) =
     ''swagger: 2.0'' \<and>
   error (after_plain sample_amf (sample_plain Content [] ''swagger: 2.0'' [])) =
     ''Please provide input'' \<and>
   output' (after_styled sample_amf (sample_styled Url ''  '' ''{}'' [])) = ''{}'' \<and>
   error (after_styled sample_amf (sample_styled Url ''  '' ''{}'' [])) =
     ''Please provide input''"
  by (simp add: after_plain_def after_styled_def handleConvert_plain_def
      handleConvert_styled_def truthy_def run_effects_simps sample_defs)

text \<open>
  C2, as amended. After an invocation that passes the empty-input guard, the output and
  the error are not both non-empty. At the guard the error becomes
  \<open>Please provide input\<close> and the output keeps the value it had.
\<close>

theorem output_error_exclusive:
  "(trim (input sp) \<noteq> [] \<longrightarrow>
      output' (after_plain lib sp) = [] \<or> error (after_plain lib sp) = []) \<and>
   (trim (input sp) = [] \<longrightarrow>
      output' (after_plain lib sp) = output' sp \<and>
      error (after_plain lib sp) = ''Please provide input'') \<and>
   (trim (input ss) \<noteq> [] \<longrightarrow>
      output' (after_styled lib ss) = [] \<or> error (after_styled lib ss) = []) \<and>
   (trim (input ss) = [] \<longrightarrow>
      output' (after_styled lib ss) = output' ss \<and>
      error (after_styled lib ss) = ''Please provide input'')"
proof (intro conjI impI)
  assume "trim (input sp) \<noteq> []"
  then show "output' (after_plain lib sp) = [] \<or> error (after_plain lib sp) = []"
    by (rule plain_exclusive)
next
  assume "trim (input ss) \<noteq> []"
  then show "output' (after_styled lib ss) = [] \<or> error (after_styled lib ss) = []"
    by (rule styled_exclusive)
next
  assume g: "trim (input sp) = []"
  show "output' (after_plain lib sp) = output' sp"
    by (simp add: after_plain_def handleConvert_plain_guard [OF g] run_effects_simps)
  show "error (after_plain lib sp) = ''Please provide input''"
    by (simp add: after_plain_def handleConvert_plain_guard [OF g] run_effects_simps)
next
  assume g: "trim (input ss) = []"
  show "output' (after_styled lib ss) = output' ss"
    by (simp add: after_styled_def handleConvert_styled_guard [OF g] run_effects_simps)
  show "error (after_styled lib ss) = ''Please provide input''"
    by (simp add: after_styled_def handleConvert_styled_guard [OF g] run_effects_simps)
qed

theorem output_error_exclusive_witness:
  "trim (input (sample_plain Content ''swagger'' ''old'' ''old error'')) \<noteq> [] \<and>
   output' (after_plain sample_amf (sample_plain Content ''swagger'' ''old'' ''old error'')) = [] \<and>
   trim (input (sample_styled Content ''#%RAML'' ''old'' ''old error'')) \<noteq> [] \<and>
   error (after_styled sample_amf (sample_styled Content ''#%RAML'' ''old'' ''old error'')) = [] \<and>
   trim (input (sample_plain Url '' '' ''old'' [])) = [] \<and>
   output' (after_plain sample_amf (sample_plain Url '' '' ''old'' [])) = ''old''"
  using output_error_exclusive [of "sample_plain Content ''swagger'' ''old'' ''old error''"
      sample_amf "sample_styled Content ''#%RAML'' ''old'' ''old error''"]
    output_error_exclusive [of "sample_plain Url '' '' ''old'' []" sample_amf
      "sample_styled Url [] [] []"]
  by (simp add: sample_defs after_plain_def after_styled_def handleConvert_plain_def
      handleConvert_styled_def try_block_plain_def try_block_styled_def truthy_def
      try_catch_finally_def run_effects_simps)

lemma Format_plain_UNIV: "(UNIV :: Format_plain set) = {P_RAML_1_0, P_OAS_2_0, P_OAS_3_0}"
  by (auto intro: Format_plain.exhaust)

lemma Format_styled_UNIV: "(UNIV :: Format_styled set) = {RAML_0_8, RAML_1_0, OAS_2_0, OAS_3_0}"
  by (auto intro: Format_styled.exhaust)

theorem format_options_counterexample:
  "map fst inputFormat_options_plain = [''RAML 1.0'', ''OAS 2.0'', ''OAS 3.0''] \<and>
   map fst outputFormat_options_plain = [''RAML 1.0'', ''OAS 2.0'', ''OAS 3.0''] \<and>
   ''RAML 0.8'' \<notin> set (map fst inputFormat_options_plain) \<and>
   ''RAML 0.8'' \<notin> set (map fst outputFormat_options_plain) \<and>
   ''RAML 0.8'' \<notin> range format_plain_value"
  by (simp add: inputFormat_options_plain_def outputFormat_options_plain_def Format_plain_UNIV)

text \<open>
  C3, as amended. In the styled variant both pickers offer exactly RAML 0.8, RAML 1.0,
  OAS 2.0 and OAS 3.0, and these are the four members of its \<open>Format\<close> type. In the
  plain-CSS variant both pickers offer exactly RAML 1.0, OAS 2.0 and OAS 3.0, the three
  members of its \<open>Format\<close> type.
\<close>

theorem format_options:
  "map fst inputFormat_options_styled = [''RAML 0.8'', ''RAML 1.0'', ''OAS 2.0'', ''OAS 3.0''] \<and>
   map fst outputFormat_options_styled = [''RAML 0.8'', ''RAML 1.0'', ''OAS 2.0'', ''OAS 3.0''] \<and>
   range format_styled_value = {''RAML 0.8'', ''RAML 1.0'', ''OAS 2.0'', ''OAS 3.0''} \<and>
   map fst inputFormat_options_plain = [''RAML 1.0'', ''OAS 2.0'', ''OAS 3.0''] \<and>
   map fst outputFormat_options_plain = [''RAML 1.0'', ''OAS 2.0'', ''OAS 3.0''] \<and>
   range format_plain_value = {''RAML 1.0'', ''OAS 2.0'', ''OAS 3.0''}"
  by (simp add: inputFormat_options_styled_def outputFormat_options_styled_def
      inputFormat_options_plain_def outputFormat_options_plain_def
      Format_plain_UNIV Format_styled_UNIV)

text \<open>
  C7. In both variants the convert button is disabled exactly when \<open>loading\<close> is true or
  the trimmed input is empty, that is, when the input consists of white space only.
\<close>

theorem convert_disabled_iff:
  "(convert_disabled_plain sp \<longleftrightarrow> loading sp \<or> trim (input sp) = []) \<and>
   (convert_disabled_plain sp \<longleftrightarrow> loading sp \<or> (\<forall>c \<in> set (input sp). is_ws c)) \<and>
   (convert_disabled_styled ss \<longleftrightarrow> loading ss \<or> trim (input ss) = []) \<and>
   (convert_disabled_styled ss \<longleftrightarrow> loading ss \<or> (\<forall>c \<in> set (input ss). is_ws c))"
  by (simp add: convert_disabled_plain_def convert_disabled_styled_def truthy_def
      trim_empty_iff)

theorem convert_disabled_iff_witness:
  "convert_disabled_plain (sample_plain Url ''  '' [] []) \<and>
   \<not> convert_disabled_plain (sample_plain Url ''http://x'' [] []) \<and>
   convert_disabled_styled ((sample_styled Url ''http://x'' [] [])\<lparr>loading := True\<rparr>) \<and>
   \<not> convert_disabled_styled (sample_styled Content '' a '' [] [])"
  using convert_disabled_iff [of "sample_plain Url ''  '' [] []"
      "(sample_styled Url ''http://x'' [] [])\<lparr>loading := True\<rparr>"]
    convert_disabled_iff [of "sample_plain Url ''http://x'' [] []"
      "sample_styled Content '' a '' [] []"]
  by (simp add: sample_defs)


end
